theory Spec2Isabelle
  imports
    Complex_Main
    "HOL-Library.Product_Lexorder"
    "HOL-Library.List_Lexorder"
    "HOL-Library.Char_ord"
    "HOL-Library.AList"
begin

section \<open>Strings\<close>

text \<open>
  Python's \<open>str.lower\<close>, on the ASCII letters. A string is a list of bytes here, and a
  letter outside ASCII is left as it is: the model covers ASCII text.
\<close>

definition char_lower :: "char \<Rightarrow> char" where
  "char_lower c =
     (case map_of (zip ''ABCDEFGHIJKLMNOPQRSTUVWXYZ'' ''abcdefghijklmnopqrstuvwxyz'') c of
        Some d \<Rightarrow> d
      | None \<Rightarrow> c)"

definition lower :: "string \<Rightarrow> string" where
  "lower s = map char_lower s"

text \<open>\<open>str(i)\<close> for a row position \<open>i\<close>.\<close>

fun show_nat :: "nat \<Rightarrow> string" where
  "show_nat n =
     (if n < 10 then [''0123456789'' ! n]
      else show_nat (n div 10) @ [''0123456789'' ! (n mod 10)])"

section \<open>Schema mapper: \<open>_auto_map_columns\<close>\<close>

datatype role = Lat | Lng | Date | Category | Description | Id | City | State

type_synonym schema = "role \<Rightarrow> string option"

text \<open>
  \<open>columns_lower = {c.lower(): c for c in df.columns}\<close>: a later column overwrites an
  earlier one with the same lower-cased name.
\<close>

definition columns_lower :: "string list \<Rightarrow> (string \<rightharpoonup> string)" where
  "columns_lower cols = fold (\<lambda>c m. m(lower c \<mapsto> c)) cols Map.empty"

fun pick :: "(string \<rightharpoonup> string) \<Rightarrow> string list \<Rightarrow> string option" where
  "pick m [] = None"
| "pick m (name # candidates) =
     (case m name of
        Some c \<Rightarrow> Some c
      | None \<Rightarrow> pick m candidates)"

fun candidates :: "role \<Rightarrow> string list" where
  "candidates Lat = [''latitude'', ''lat'', ''y'']"
| "candidates Lng = [''longitude'', ''lon'', ''lng'', ''x'']"
| "candidates Date =
     [''date'', ''datetime'', ''occurred_on'', ''timestamp'', ''reported_date'', ''reported_at'']"
| "candidates Category =
     [''category'', ''offense'', ''crime_type'', ''offense_type'', ''type'', ''ucr'',
      ''incident_type'']"
| "candidates Description =
     [''description'', ''details'', ''summary'', ''narrative'', ''offense_description'',
      ''incident_description'']"
| "candidates Id = [''id'', ''incident_id'', ''case_number'', ''case_id'', ''event_number'']"
| "candidates City = [''city'', ''municipality'', ''jurisdiction'']"
| "candidates State = [''state'', ''province'', ''region'']"

definition auto_map_columns :: "string list \<Rightarrow> schema" where
  "auto_map_columns cols = (\<lambda>r. pick (columns_lower cols) (candidates r))"

text \<open>A candidate matches a column when the two agree up to letter case.\<close>

definition matches :: "string list \<Rightarrow> string \<Rightarrow> bool" where
  "matches cols name = list_ex (\<lambda>c. lower c = lower name) cols"

section \<open>Data model\<close>

text \<open>
  A raw cell as \<open>pandas.read_csv\<close> delivers it: missing (NaN), or a scalar, which is
  identified with its string form \<open>str(v)\<close>. A row maps column names to cells.
\<close>

datatype cell = NaN | Val string

type_synonym raw_row = "string \<Rightarrow> cell"

record raw_df =
  df_columns :: "string list"
  df_rows :: "raw_row list"

text \<open>
  A naive date-time: year, month, day, hour, minute, second, nanosecond. The lexicographic
  order of the tuple is the chronological order.
\<close>

type_synonym timestamp = "int \<times> int \<times> int \<times> int \<times> int \<times> int \<times> int"

text \<open>
  One row of the normalised frame: the raw row and the derived columns \<open>_dt\<close>, \<open>_cat\<close>,
  \<open>_desc\<close>, \<open>_lat\<close>, \<open>_lng\<close>, \<open>_id\<close>, \<open>_city\<close>, \<open>_state\<close>. A coordinate is a float in the
  source; it is an exact real number here, so rounding, infinities and overflow are outside
  this model. \<open>None\<close> is NaN, NaT or \<open>None\<close>: what \<open>isna\<close> accepts. A text column holds
  cells, since the coercion to text can leave a value missing. The identifier is copied to
  the output and read nowhere else; it is kept as its text.
\<close>

record record_row =
  r_raw :: raw_row
  r_dt :: "timestamp option"
  r_cat :: cell
  r_desc :: cell
  r_lat :: "real option"
  r_lng :: "real option"
  r_id :: string
  r_city :: cell
  r_state :: cell

record frame =
  f_columns :: "string list"
  f_rows :: "record_row list"

text \<open>
  The exceptions of the program. FileNotFoundError is raised by \<open>_load_df\<close>; HTTPException
  carries a status and a detail; \<open>re.error\<close>, KeyError (with the name of the column that is
  not there), ZeroDivisionError and TypeError are caught nowhere; RequestValidationError is the framework refusing a parameter outside the range
  its \<open>Query\<close> declares.
\<close>

datatype error =
    FileNotFoundError string
  | HTTPException nat string
  | ReError
  | KeyError string
  | ZeroDivisionError
  | TypeError
  | RequestValidationError

definition NoGeoData :: error where
  "NoGeoData = HTTPException 400 ''CSV has no latitude/longitude columns''"

definition SourceNotFound :: "string \<Rightarrow> error" where
  "SourceNotFound csv_path = HTTPException 404 (''CSV not found at '' @ csv_path)"

section \<open>The libraries the program calls\<close>

text \<open>
  The program calls \<open>datetime.strptime\<close>, \<open>pandas.to_datetime\<close>, \<open>pandas.to_numeric\<close> and
  the regular-expression search behind \<open>Series.str.contains\<close>. They are parameters of the
  model. Where the library call can raise, the result is an option and \<open>None\<close> is the
  exception.
  \<^item> \<open>strptime s f\<close>: \<open>datetime.strptime(s, f)\<close>; \<open>None\<close> is ValueError.
  \<^item> \<open>to_datetime c\<close>: \<open>pd.to_datetime(c, errors="coerce")\<close> on one value; \<open>Some None\<close> is NaT.
  \<^item> \<open>to_datetime_series cs\<close>: the same call on a whole column.
  \<^item> \<open>to_datetime_str s\<close>: \<open>pd.to_datetime(s)\<close> on a request parameter.
  \<^item> \<open>to_numeric s\<close>: \<open>pd.to_numeric(..., errors="coerce")\<close> on one present value;
    \<open>None\<close> is NaN.
  \<^item> \<open>re_compile p\<close>: the matcher for the pattern \<open>p\<close>; \<open>None\<close> is \<open>re.error\<close>.
  \<^item> \<open>astype_str_keeps_na\<close>: whether \<open>Series.astype(str)\<close> leaves a missing value missing
    (pandas from 3.0) or turns it into the text \<open>nan\<close> (pandas before 3.0).
\<close>

record pandas =
  strptime :: "string \<Rightarrow> string \<Rightarrow> timestamp option"
  to_datetime :: "cell \<Rightarrow> timestamp option option"
  to_datetime_series :: "cell list \<Rightarrow> timestamp option list option"
  to_datetime_str :: "string \<Rightarrow> timestamp option option"
  to_numeric :: "string \<Rightarrow> real option"
  re_compile :: "string \<Rightarrow> (string \<Rightarrow> bool) option"
  astype_str_keeps_na :: bool

text \<open>The built-in \<open>str(v)\<close>: of a missing value, a float NaN, it is the text \<open>nan\<close>.\<close>

fun py_str :: "cell \<Rightarrow> string" where
  "py_str NaN = ''nan''"
| "py_str (Val s) = s"

text \<open>\<open>Series.astype(str)\<close>, on one cell.\<close>

definition astype_str :: "pandas \<Rightarrow> cell \<Rightarrow> cell" where
  "astype_str P c =
     (case c of
        NaN \<Rightarrow> if astype_str_keeps_na P then NaN else Val ''nan''
      | Val s \<Rightarrow> Val s)"

section \<open>Date normaliser: \<open>_maybe_parse_date\<close>\<close>

definition fmts :: "string list" where
  "fmts =
     [''%Y-%m-%d'',
      ''%Y-%m-%d %H:%M:%S'',
      ''%m/%d/%Y'',
      ''%m/%d/%Y %H:%M'',
      ''%m/%d/%y'',
      ''%Y/%m/%d'',
      ''%d-%m-%Y'',
      ''%Y-%m-%dT%H:%M:%S'',
      ''%Y-%m-%dT%H:%M:%S.%f'']"

fun try_fmts :: "pandas \<Rightarrow> string \<Rightarrow> string list \<Rightarrow> timestamp option" where
  "try_fmts P s [] = None"
| "try_fmts P s (f # fs) =
     (case strptime P s f of
        Some t \<Rightarrow> Some t
      | None \<Rightarrow> try_fmts P s fs)"

definition maybe_parse_date :: "pandas \<Rightarrow> cell \<Rightarrow> timestamp option" where
  "maybe_parse_date P s =
     (case try_fmts P (py_str s) fmts of
        Some t \<Rightarrow> Some t
      | None \<Rightarrow>
          (case to_datetime P s of
             Some t \<Rightarrow> t
           | None \<Rightarrow> None))"

text \<open>
  The reference parse as section 4.2 of the specification words it: the nine patterns in
  their fixed order, the first that parses wins; then the permissive parser; then absent.
\<close>

definition spec_patterns :: "string list" where
  "spec_patterns =
     [''%Y-%m-%d'', ''%Y-%m-%d %H:%M:%S'', ''%m/%d/%Y'', ''%m/%d/%Y %H:%M'', ''%m/%d/%y'',
      ''%Y/%m/%d'', ''%d-%m-%Y'', ''%Y-%m-%dT%H:%M:%S'', ''%Y-%m-%dT%H:%M:%S.%f'']"

definition spec_parse :: "pandas \<Rightarrow> cell \<Rightarrow> timestamp option" where
  "spec_parse P raw =
     (case find (\<lambda>f. strptime P (py_str raw) f \<noteq> None) spec_patterns of
        Some f \<Rightarrow> strptime P (py_str raw) f
      | None \<Rightarrow> (case to_datetime P raw of Some (Some t) \<Rightarrow> Some t | _ \<Rightarrow> None))"

section \<open>Record store: \<open>_load_df\<close>\<close>

definition column :: "raw_df \<Rightarrow> string \<Rightarrow> cell list" where
  "column df c = map (\<lambda>r. r c) (df_rows df)"

text \<open>The \<open>_dt\<close> column: lines 103 to 109.\<close>

definition load_dt :: "pandas \<Rightarrow> raw_df \<Rightarrow> schema \<Rightarrow> timestamp option list" where
  "load_dt P df sch =
     (case sch Date of
        None \<Rightarrow> replicate (length (df_rows df)) None
      | Some c \<Rightarrow>
          if c \<noteq> [] \<and> list_ex (\<lambda>v. v \<noteq> NaN) (column df c) then
            (case to_datetime_series P (column df c) of
               Some ts \<Rightarrow> ts
             | None \<Rightarrow> map (maybe_parse_date P) (column df c))
          else replicate (length (df_rows df)) None)"

text \<open>A text column: \<open>astype(str)\<close> of the mapped column, or the empty string.\<close>

definition load_text :: "pandas \<Rightarrow> raw_df \<Rightarrow> string list \<Rightarrow> string option \<Rightarrow> cell list" where
  "load_text P df cols m =
     (case m of
        None \<Rightarrow> replicate (length (df_rows df)) (Val [])
      | Some c \<Rightarrow>
          if c \<noteq> [] \<and> c \<in> set cols then map (astype_str P) (column df c)
          else replicate (length (df_rows df)) (Val []))"

definition load_num :: "pandas \<Rightarrow> raw_df \<Rightarrow> string list \<Rightarrow> string option \<Rightarrow> real option list"
  where
  "load_num P df cols m =
     (case m of
        None \<Rightarrow> replicate (length (df_rows df)) None
      | Some c \<Rightarrow>
          if c \<noteq> [] \<and> c \<in> set cols then
            map (\<lambda>v. case v of NaN \<Rightarrow> None | Val s \<Rightarrow> to_numeric P s) (column df c)
          else replicate (length (df_rows df)) None)"

text \<open>
  The identifier: \<open>astype(str)\<close> of the mapped column, kept as text, or the row position.
\<close>

definition load_id :: "pandas \<Rightarrow> raw_df \<Rightarrow> string list \<Rightarrow> string option \<Rightarrow> string list"
  where
  "load_id P df cols m =
     (case m of
        None \<Rightarrow> map show_nat [0 ..< length (df_rows df)]
      | Some c \<Rightarrow>
          if c \<noteq> [] \<and> c \<in> set cols then map (\<lambda>v. py_str (astype_str P v)) (column df c)
          else map show_nat [0 ..< length (df_rows df)])"

text \<open>Assigning a column appends its name unless the frame has it already.\<close>

definition add_column :: "string \<Rightarrow> string list \<Rightarrow> string list" where
  "add_column c cols = (if c \<in> set cols then cols else cols @ [c])"

definition build_frame :: "pandas \<Rightarrow> raw_df \<Rightarrow> schema \<Rightarrow> frame" where
  "build_frame P df sch =
     (let dt = load_dt P df sch;
          cols1 = add_column ''_dt'' (df_columns df);
          cat = load_text P df cols1 (sch Category);
          cols2 = add_column ''_cat'' cols1;
          desc = load_text P df cols2 (sch Description);
          cols3 = add_column ''_desc'' cols2;
          lat = load_num P df cols3 (sch Lat);
          cols4 = add_column ''_lat'' cols3;
          lng = load_num P df cols4 (sch Lng);
          cols5 = add_column ''_lng'' cols4;
          ident = load_id P df cols5 (sch Id);
          cols6 = add_column ''_id'' cols5;
          city = load_text P df cols6 (sch City);
          cols7 = add_column ''_city'' cols6;
          state = load_text P df cols7 (sch State);
          cols8 = add_column ''_state'' cols7
      in \<lparr>f_columns = cols8,
          f_rows =
            map (\<lambda>i. \<lparr>r_raw = df_rows df ! i, r_dt = dt ! i, r_cat = cat ! i, r_desc = desc ! i,
                      r_lat = lat ! i, r_lng = lng ! i, r_id = ident ! i, r_city = city ! i,
                      r_state = state ! i\<rparr>)
              [0 ..< length (df_rows df)]\<rparr>)"

text \<open>
  The process state: the memoised frame \<open>_df\<close> and the global \<open>schema\<close>. The environment:
  the path \<open>CSV_PATH\<close> and the file there, already read into a table when it exists.
  \<open>_load_df\<close> raises before it assigns anything, or assigns both globals.
\<close>

record state =
  g_df :: "frame option"
  g_schema :: schema

record env =
  csv_path :: string
  csv_file :: "raw_df option"

definition init_state :: state where
  "init_state = \<lparr>g_df = None, g_schema = (\<lambda>r. None)\<rparr>"

definition load_df :: "pandas \<Rightarrow> env \<Rightarrow> state \<Rightarrow> error + state" where
  "load_df P E st =
     (case csv_file E of
        None \<Rightarrow> Inl (FileNotFoundError (''CSV not found at '' @ csv_path E))
      | Some df \<Rightarrow>
          (let sch = auto_map_columns (df_columns df)
           in Inr \<lparr>g_df = Some (build_frame P df sch), g_schema = sch\<rparr>))"

definition get_df :: "pandas \<Rightarrow> env \<Rightarrow> state \<Rightarrow> (error + frame) \<times> state" where
  "get_df P E st =
     (case g_df st of
        Some f \<Rightarrow> (Inr f, st)
      | None \<Rightarrow>
          (case load_df P E st of
             Inl e \<Rightarrow> (Inl e, st)
           | Inr st' \<Rightarrow>
               (case g_df st' of
                  Some f \<Rightarrow> (Inr f, st')
                | None \<Rightarrow> (Inl TypeError, st'))))"

text \<open>
  Every endpoint but \<open>health\<close> starts with the same lines: \<open>get_df\<close>, with
  FileNotFoundError answered as status 404 carrying the message of the exception.
\<close>

definition with_df ::
  "pandas \<Rightarrow> env \<Rightarrow> state \<Rightarrow> (frame \<Rightarrow> error + 'a) \<Rightarrow> (error + 'a) \<times> state" where
  "with_df P E st body =
     (case get_df P E st of
        (Inl (FileNotFoundError msg), st') \<Rightarrow> (Inl (HTTPException 404 msg), st')
      | (Inl e, st') \<Rightarrow> (Inl e, st')
      | (Inr f, st') \<Rightarrow> (body f, st'))"

section \<open>Query engine\<close>

subsection \<open>\<open>columns\<close>\<close>

definition columns_df :: "schema \<Rightarrow> frame \<Rightarrow> error + (string list \<times> schema \<times> nat)" where
  "columns_df sch f = Inr (f_columns f, sch, length (f_rows f))"

definition columns :: "pandas \<Rightarrow> env \<Rightarrow> state \<Rightarrow> (error + (string list \<times> schema \<times> nat)) \<times> state"
  where
  "columns P E st =
     (case with_df P E st (\<lambda>f. Inr f) of
        (Inl e, st') \<Rightarrow> (Inl e, st')
      | (Inr f, st') \<Rightarrow> (columns_df (g_schema st') f, st'))"

subsection \<open>\<open>incidents\<close>\<close>

record incidents_params =
  p_q :: "string option"
  p_category :: "string option"
  p_city :: "string option"
  p_state :: "string option"
  p_start_date :: "string option"
  p_end_date :: "string option"
  p_min_lat :: "real option"
  p_max_lat :: "real option"
  p_min_lng :: "real option"
  p_max_lng :: "real option"
  p_limit :: int
  p_offset :: int
  p_sort :: string

text \<open>The defaults of the signature: no filter, \<open>limit=100\<close>, \<open>offset=0\<close>, \<open>sort="-date"\<close>.\<close>

definition default_params :: incidents_params where
  "default_params =
     \<lparr>p_q = None, p_category = None, p_city = None, p_state = None, p_start_date = None,
      p_end_date = None, p_min_lat = None, p_max_lat = None, p_min_lng = None, p_max_lng = None,
      p_limit = 100, p_offset = 0, p_sort = ''-date''\<rparr>"

record item =
  i_id :: string
  i_date :: "timestamp option"
  i_category :: cell
  i_description :: cell
  i_lat :: "real option"
  i_lng :: "real option"
  i_city :: cell
  i_state :: cell

record incidents_result =
  res_total :: nat
  res_limit :: int
  res_offset :: int
  res_items :: "item list"

text \<open>
  \<open>if q:\<close> on an optional string: \<open>None\<close> and the empty string are false. \<open>active v\<close> is
  the value when the test passes.
\<close>

definition active :: "string option \<Rightarrow> string option" where
  "active v = (case v of None \<Rightarrow> None | Some s \<Rightarrow> if s = [] then None else Some s)"

text \<open>
  The mask \<open>filt\<close> is a predicate on rows here. Each definition below is one \<open>if\<close> of
  lines 186 to 217; a comparison with a missing value is false, and so is
  \<open>str.contains(..., na=False)\<close> on a missing text.
\<close>

definition text_matches :: "(string \<Rightarrow> bool) \<Rightarrow> cell \<Rightarrow> bool" where
  "text_matches m c = (case c of NaN \<Rightarrow> False | Val t \<Rightarrow> m (lower t))"

definition q_filter :: "pandas \<Rightarrow> string option \<Rightarrow> error + (record_row \<Rightarrow> bool)" where
  "q_filter P q =
     (case active q of
        None \<Rightarrow> Inr (\<lambda>r. True)
      | Some s \<Rightarrow>
          (case re_compile P (lower s) of
             None \<Rightarrow> Inl ReError
           | Some m \<Rightarrow> Inr (\<lambda>r. text_matches m (r_desc r) \<or> text_matches m (r_cat r))))"

definition eq_filter :: "(record_row \<Rightarrow> cell) \<Rightarrow> string option \<Rightarrow> record_row \<Rightarrow> bool" where
  "eq_filter field v =
     (case active v of
        None \<Rightarrow> (\<lambda>r. True)
      | Some s \<Rightarrow> (\<lambda>r. case field r of NaN \<Rightarrow> False | Val t \<Rightarrow> lower t = lower s))"

definition date_filter ::
  "pandas \<Rightarrow> (timestamp \<Rightarrow> timestamp \<Rightarrow> bool) \<Rightarrow> string \<Rightarrow> string option
     \<Rightarrow> error + (record_row \<Rightarrow> bool)" where
  "date_filter P cmp detail v =
     (case active v of
        None \<Rightarrow> Inr (\<lambda>r. True)
      | Some s \<Rightarrow>
          (case to_datetime_str P s of
             None \<Rightarrow> Inl (HTTPException 400 detail)
           | Some b \<Rightarrow>
               Inr (\<lambda>r. case (r_dt r, b) of (Some t, Some d) \<Rightarrow> cmp t d | _ \<Rightarrow> False)))"

definition bound_filter ::
  "(record_row \<Rightarrow> real option) \<Rightarrow> (real \<Rightarrow> real \<Rightarrow> bool) \<Rightarrow> real option \<Rightarrow> record_row \<Rightarrow> bool"
  where
  "bound_filter field cmp v =
     (case v of
        None \<Rightarrow> (\<lambda>r. True)
      | Some b \<Rightarrow> (\<lambda>r. case field r of Some x \<Rightarrow> cmp x b | None \<Rightarrow> False))"

definition incidents_filter :: "pandas \<Rightarrow> incidents_params \<Rightarrow> error + (record_row \<Rightarrow> bool)" where
  "incidents_filter P p =
     (case q_filter P (p_q p) of
        Inl e \<Rightarrow> Inl e
      | Inr fq \<Rightarrow>
     (case date_filter P (\<lambda>t d. d \<le> t) ''Invalid start_date'' (p_start_date p) of
        Inl e \<Rightarrow> Inl e
      | Inr fs \<Rightarrow>
     (case date_filter P (\<lambda>t d. t \<le> d) ''Invalid end_date'' (p_end_date p) of
        Inl e \<Rightarrow> Inl e
      | Inr fe \<Rightarrow>
          Inr (\<lambda>r. fq r
                 \<and> eq_filter r_cat (p_category p) r
                 \<and> eq_filter r_city (p_city p) r
                 \<and> eq_filter r_state (p_state p) r
                 \<and> fs r \<and> fe r
                 \<and> bound_filter r_lat (\<lambda>x b. b \<le> x) (p_min_lat p) r
                 \<and> bound_filter r_lat (\<lambda>x b. x \<le> b) (p_max_lat p) r
                 \<and> bound_filter r_lng (\<lambda>x b. b \<le> x) (p_min_lng p) r
                 \<and> bound_filter r_lng (\<lambda>x b. x \<le> b) (p_max_lng p) r))))"

text \<open>
  \<open>sort_values(by="_dt", ascending=..., na_position="last")\<close>. The library sorts the rows
  with a present key and appends the others in their order. Descending, it reverses the
  rows, sorts them ascending and reverses the result; the sort is taken as stable.
\<close>

definition dt_key :: "record_row \<Rightarrow> timestamp" where
  "dt_key r = (case r_dt r of Some t \<Rightarrow> t | None \<Rightarrow> (0, 0, 0, 0, 0, 0, 0))"

definition has_dt :: "record_row \<Rightarrow> bool" where
  "has_dt r = (r_dt r \<noteq> None)"

definition sort_values :: "bool \<Rightarrow> record_row list \<Rightarrow> record_row list" where
  "sort_values ascending xs =
     (let non_nans = filter has_dt xs;
          nans = filter (\<lambda>r. \<not> has_dt r) xs
      in (if ascending then sort_key dt_key non_nans
          else rev (sort_key dt_key (rev non_nans))) @ nans)"

definition apply_sort :: "string \<Rightarrow> record_row list \<Rightarrow> record_row list" where
  "apply_sort s xs =
     (if s = ''date'' then sort_values True xs
      else if s = ''-date'' then sort_values False xs
      else xs)"

text \<open>The slice \<open>xs[a:b]\<close> of Python, negative positions counted from the end.\<close>

definition slice :: "'a list \<Rightarrow> int \<Rightarrow> int \<Rightarrow> 'a list" where
  "slice xs a b =
     (let n = int (length xs);
          lo = (if a < 0 then max (n + a) 0 else min a n);
          hi = (if b < 0 then max (n + b) 0 else min b n)
      in take (nat (hi - lo)) (drop (nat lo) xs))"

definition project :: "record_row \<Rightarrow> item" where
  "project r =
     \<lparr>i_id = r_id r, i_date = r_dt r, i_category = r_cat r, i_description = r_desc r,
      i_lat = r_lat r, i_lng = r_lng r, i_city = r_city r, i_state = r_state r\<rparr>"

text \<open>
  Line 184 builds the mask from a list of \<open>len(df)\<close> times \<open>True\<close>. On an empty store the
  list is empty and the mask has the object dtype, not the boolean one, until a filter
  replaces it through \<open>&=\<close>. With such a mask \<open>df[filt]\<close> of line 219 selects columns, none
  of them, instead of rows: the result has no column, and \<open>sort_values(by="_dt")\<close> raises
  KeyError.
\<close>

definition mask_touched :: "incidents_params \<Rightarrow> bool" where
  "mask_touched p \<longleftrightarrow>
     active (p_q p) \<noteq> None \<or> active (p_category p) \<noteq> None \<or> active (p_city p) \<noteq> None
     \<or> active (p_state p) \<noteq> None \<or> active (p_start_date p) \<noteq> None
     \<or> active (p_end_date p) \<noteq> None \<or> p_min_lat p \<noteq> None \<or> p_max_lat p \<noteq> None
     \<or> p_min_lng p \<noteq> None \<or> p_max_lng p \<noteq> None"

definition incidents_df :: "pandas \<Rightarrow> frame \<Rightarrow> incidents_params \<Rightarrow> error + incidents_result"
  where
  "incidents_df P f p =
     (case incidents_filter P p of
        Inl e \<Rightarrow> Inl e
      | Inr filt \<Rightarrow>
          if f_rows f = [] \<and> \<not> mask_touched p then
            (if p_sort p = ''date'' \<or> p_sort p = ''-date'' then Inl (KeyError ''_dt'')
             else Inr \<lparr>res_total = 0, res_limit = p_limit p, res_offset = p_offset p,
                       res_items = []\<rparr>)
          else
            (let res = apply_sort (p_sort p) (filter filt (f_rows f));
                 page = slice res (p_offset p) (p_offset p + p_limit p)
             in Inr \<lparr>res_total = length res, res_limit = p_limit p, res_offset = p_offset p,
                     res_items = map project page\<rparr>))"

definition incidents ::
  "pandas \<Rightarrow> env \<Rightarrow> state \<Rightarrow> incidents_params \<Rightarrow> (error + incidents_result) \<times> state" where
  "incidents P E st p =
     (if p_limit p < 1 \<or> 1000 < p_limit p \<or> p_offset p < 0
      then (Inl RequestValidationError, st)
      else with_df P E st (\<lambda>f. incidents_df P f p))"

subsection \<open>\<open>stats\<close>\<close>

datatype bucket_key =
    KStr string
  | KDay "int \<times> int \<times> int"
  | KMonth "int \<times> int"
  | KYear int

text \<open>
  \<open>groupby(col, dropna=False).size()\<close> lists the groups by ascending key, the group of the
  missing key last; \<open>sort_values("count", ascending=False)\<close> then orders them as
  \<open>sort_values\<close> above does. The key of the output is \<open>str(k)\<close>.
\<close>

definition key_rank :: "cell \<Rightarrow> nat \<times> string" where
  "key_rank k = (case k of Val s \<Rightarrow> (0, s) | NaN \<Rightarrow> (1, []))"

definition group_size :: "(record_row \<Rightarrow> cell) \<Rightarrow> record_row list \<Rightarrow> (cell \<times> nat) list" where
  "group_size field res =
     (let keys = map field res;
          grp = map (\<lambda>k. (k, count_list keys k)) (sort_key key_rank (remdups keys))
      in rev (sort_key snd (rev grp)))"

text \<open>\<open>value_counts().sort_index()\<close>: the distinct keys, ascending, each with its count.\<close>

definition value_counts_sorted :: "('k::linorder) list \<Rightarrow> ('k \<times> nat) list" where
  "value_counts_sorted keys = map (\<lambda>k. (k, count_list keys k)) (sort (remdups keys))"

fun dropna :: "'a option list \<Rightarrow> 'a list" where
  "dropna [] = []"
| "dropna (None # xs) = dropna xs"
| "dropna (Some x # xs) = x # dropna xs"

definition ts_day :: "timestamp \<Rightarrow> int \<times> int \<times> int" where
  "ts_day t = (case t of (y, m, d, rest) \<Rightarrow> (y, m, d))"

definition ts_month :: "timestamp \<Rightarrow> int \<times> int" where
  "ts_month t = (case t of (y, m, rest) \<Rightarrow> (y, m))"

definition ts_year :: "timestamp \<Rightarrow> int" where
  "ts_year t = fst t"

definition stats_filter :: "pandas \<Rightarrow> string option \<Rightarrow> string option \<Rightarrow> error + (record_row \<Rightarrow> bool)"
  where
  "stats_filter P start_date end_date =
     (case date_filter P (\<lambda>t d. d \<le> t) ''Invalid start_date'' start_date of
        Inl e \<Rightarrow> Inl e
      | Inr fs \<Rightarrow>
     (case date_filter P (\<lambda>t d. t \<le> d) ''Invalid end_date'' end_date of
        Inl e \<Rightarrow> Inl e
      | Inr fe \<Rightarrow> Inr (\<lambda>r. fs r \<and> fe r)))"

text \<open>
  Line 257 builds the mask as line 184 does: on an empty store without a date bound,
  \<open>df[filt]\<close> of line 272 has no column, and the first access to one raises KeyError.
\<close>

definition stats_df ::
  "pandas \<Rightarrow> frame \<Rightarrow> string \<Rightarrow> string option \<Rightarrow> string option \<Rightarrow> error + (bucket_key \<times> nat) list"
  where
  "stats_df P f by start_date end_date =
     (case stats_filter P start_date end_date of
        Inl e \<Rightarrow> Inl e
      | Inr filt \<Rightarrow>
          if f_rows f = [] \<and> active start_date = None \<and> active end_date = None then
            (if by = ''category'' then Inl (KeyError ''_cat'')
             else if by \<in> {''day'', ''month'', ''year''} then Inl (KeyError ''_dt'')
             else if by = ''city'' then Inl (KeyError ''_city'')
             else if by = ''state'' then Inl (KeyError ''_state'')
             else Inl (HTTPException 400 ''Invalid 'by' parameter''))
          else
          (let res = filter filt (f_rows f) in
           if by = ''category'' then
             Inr (map (\<lambda>(k, v). (KStr (py_str k), v)) (group_size r_cat res))
           else if by \<in> {''day'', ''month'', ''year''} then
             (if list_all (\<lambda>r. r_dt r = None) res then Inr []
              else
                (let dt = dropna (map r_dt res) in
                 if by = ''day'' then
                   Inr (map (\<lambda>(k, v). (KDay k, v)) (value_counts_sorted (map ts_day dt)))
                 else if by = ''month'' then
                   Inr (map (\<lambda>(k, v). (KMonth k, v)) (value_counts_sorted (map ts_month dt)))
                 else
                   Inr (map (\<lambda>(k, v). (KYear k, v)) (value_counts_sorted (map ts_year dt)))))
           else if by = ''city'' then
             Inr (map (\<lambda>(k, v). (KStr (py_str k), v)) (group_size r_city res))
           else if by = ''state'' then
             Inr (map (\<lambda>(k, v). (KStr (py_str k), v)) (group_size r_state res))
           else Inl (HTTPException 400 ''Invalid 'by' parameter'')))"

definition stats ::
  "pandas \<Rightarrow> env \<Rightarrow> state \<Rightarrow> string \<Rightarrow> string option \<Rightarrow> string option
     \<Rightarrow> (error + (bucket_key \<times> nat) list) \<times> state" where
  "stats P E st by start_date end_date =
     with_df P E st (\<lambda>f. stats_df P f by start_date end_date)"

subsection \<open>\<open>geojson\<close>\<close>

record feature =
  ft_coordinates :: "real \<times> real"
  ft_id :: string
  ft_date :: "timestamp option"
  ft_category :: cell
  ft_description :: cell
  ft_city :: cell
  ft_state :: cell

text \<open>The guard of lines 308 and 336: a column all of whose values are missing.\<close>

definition no_geo :: "frame \<Rightarrow> bool" where
  "no_geo f =
     (list_all (\<lambda>r. r_lat r = None) (f_rows f) \<or> list_all (\<lambda>r. r_lng r = None) (f_rows f))"

definition has_both :: "record_row \<Rightarrow> bool" where
  "has_both r = (r_lat r \<noteq> None \<and> r_lng r \<noteq> None)"

text \<open>The loop of lines 312 to 326; a row with a missing coordinate is skipped.\<close>

fun features :: "record_row list \<Rightarrow> feature list" where
  "features [] = []"
| "features (r # rs) =
     (case (r_lat r, r_lng r) of
        (Some la, Some lo) \<Rightarrow>
          \<lparr>ft_coordinates = (lo, la), ft_id = r_id r, ft_date = r_dt r, ft_category = r_cat r,
           ft_description = r_desc r, ft_city = r_city r, ft_state = r_state r\<rparr> # features rs
      | _ \<Rightarrow> features rs)"

definition geojson_df :: "frame \<Rightarrow> error + feature list" where
  "geojson_df f = (if no_geo f then Inl NoGeoData else Inr (features (f_rows f)))"

definition geojson :: "pandas \<Rightarrow> env \<Rightarrow> state \<Rightarrow> (error + feature list) \<times> state" where
  "geojson P E st = with_df P E st geojson_df"

subsection \<open>\<open>heatmap\<close>\<close>

record heat =
  h_bins :: int
  h_bounds :: "(real \<times> real \<times> real \<times> real) option"
  h_grid :: "(real \<times> real \<times> nat) list"

text \<open>\<open>int(x)\<close> on a float rounds towards zero.\<close>

definition py_int :: "real \<Rightarrow> int" where
  "py_int x = (if 0 \<le> x then \<lfloor>x\<rfloor> else \<lceil>x\<rceil>)"

definition cell_index :: "real \<Rightarrow> real \<Rightarrow> real \<Rightarrow> int \<Rightarrow> int" where
  "cell_index v lo step bins = min (py_int ((v - lo) / step)) (bins - 1)"

text \<open>
  The dictionary \<open>grid\<close> keeps its keys in the order of their first insertion:
  \<open>grid[key] = grid.get(key, 0) + 1\<close>.
\<close>

definition grid_get :: "((int \<times> int) \<times> nat) list \<Rightarrow> int \<times> int \<Rightarrow> nat" where
  "grid_get grid key = (case map_of grid key of None \<Rightarrow> 0 | Some c \<Rightarrow> c)"

definition grid_add :: "int \<times> int \<Rightarrow> ((int \<times> int) \<times> nat) list \<Rightarrow> ((int \<times> int) \<times> nat) list" where
  "grid_add key grid = AList.update key (grid_get grid key + 1) grid"

definition series_min :: "real list \<Rightarrow> real" where
  "series_min xs = (case xs of [] \<Rightarrow> 0 | x # ys \<Rightarrow> fold min ys x)"

definition series_max :: "real list \<Rightarrow> real" where
  "series_max xs = (case xs of [] \<Rightarrow> 0 | x # ys \<Rightarrow> fold max ys x)"

definition heat_grid ::
  "real \<Rightarrow> real \<Rightarrow> real \<Rightarrow> real \<Rightarrow> int \<Rightarrow> (real \<times> real) list \<Rightarrow> ((int \<times> int) \<times> nat) list" where
  "heat_grid lat_min lat_step lng_min lng_step bins pairs =
     fold (\<lambda>(la, lo) grid.
             grid_add (cell_index la lat_min lat_step bins, cell_index lo lng_min lng_step bins) grid)
       pairs []"

text \<open>
  Lines 339 and 340 drop the missing values of each column on its own; line 356 pairs the
  two remaining sequences by position. The test of line 341 is kept although the guard of
  line 336 has excluded it. Dividing by \<open>bins = 0\<close> raises.
\<close>

definition heatmap_df :: "frame \<Rightarrow> int \<Rightarrow> error + heat" where
  "heatmap_df f bins =
     (if no_geo f then Inl NoGeoData
      else
        (let lat = dropna (map r_lat (f_rows f));
             lng = dropna (map r_lng (f_rows f))
         in if lat = [] \<or> lng = [] then Inr \<lparr>h_bins = bins, h_bounds = None, h_grid = []\<rparr>
            else
              (let lat_min = series_min lat; lat_max = series_max lat;
                   lng_min = series_min lng; lng_max = series_max lng
               in if lat_min = lat_max \<or> lng_min = lng_max then
                    Inr \<lparr>h_bins = bins, h_bounds = None,
                         h_grid = [(lat_min, lng_min, length lat)]\<rparr>
                  else if bins = 0 then Inl ZeroDivisionError
                  else
                    (let lat_step = (lat_max - lat_min) / real_of_int bins;
                         lng_step = (lng_max - lng_min) / real_of_int bins;
                         grid = heat_grid lat_min lat_step lng_min lng_step bins (zip lat lng)
                     in Inr \<lparr>h_bins = bins,
                             h_bounds = Some (lat_min, lat_max, lng_min, lng_max),
                             h_grid =
                               map (\<lambda>((i, j), count).
                                      (lat_min + (real_of_int i + 1 / 2) * lat_step,
                                       lng_min + (real_of_int j + 1 / 2) * lng_step,
                                       count))
                                 grid\<rparr>))))"

definition heatmap :: "pandas \<Rightarrow> env \<Rightarrow> state \<Rightarrow> int \<Rightarrow> (error + heat) \<times> state" where
  "heatmap P E st bins =
     (if bins < 5 \<or> 400 < bins then (Inl RequestValidationError, st)
      else with_df P E st (\<lambda>f. heatmap_df f bins))"

section \<open>The filters as the specification words them\<close>

text \<open>
  Section 4.4 of the specification: the filters are optional and combined by conjunction.
  A record satisfies an active text filter when the lower-cased text occurs in its
  lower-cased description or category, an active exact filter when the field agrees up to
  letter case, an active date bound when its timestamp is present and within the bound, and
  a bounding-box limit when the coordinate is present and within the limit.
\<close>

fun starts_with :: "string \<Rightarrow> string \<Rightarrow> bool" where
  "starts_with [] s = True"
| "starts_with (c # p) [] = False"
| "starts_with (c # p) (d # s) = (c = d \<and> starts_with p s)"

fun substring :: "string \<Rightarrow> string \<Rightarrow> bool" where
  "substring p [] = (p = [])"
| "substring p (c # s) = (starts_with p (c # s) \<or> substring p s)"

definition spec_text_match :: "string \<Rightarrow> cell \<Rightarrow> bool" where
  "spec_text_match q c \<longleftrightarrow> (\<exists>t. c = Val t \<and> substring (lower q) (lower t))"

definition spec_exact_match :: "string \<Rightarrow> cell \<Rightarrow> bool" where
  "spec_exact_match v c \<longleftrightarrow> (\<exists>t. c = Val t \<and> lower t = lower v)"

definition spec_satisfies :: "pandas \<Rightarrow> incidents_params \<Rightarrow> record_row \<Rightarrow> bool" where
  "spec_satisfies P p r \<longleftrightarrow>
     (\<forall>q. active (p_q p) = Some q \<longrightarrow> spec_text_match q (r_desc r) \<or> spec_text_match q (r_cat r))
     \<and> (\<forall>c. active (p_category p) = Some c \<longrightarrow> spec_exact_match c (r_cat r))
     \<and> (\<forall>c. active (p_city p) = Some c \<longrightarrow> spec_exact_match c (r_city r))
     \<and> (\<forall>c. active (p_state p) = Some c \<longrightarrow> spec_exact_match c (r_state r))
     \<and> (\<forall>s. active (p_start_date p) = Some s \<longrightarrow>
          (\<exists>t d. r_dt r = Some t \<and> to_datetime_str P s = Some (Some d) \<and> d \<le> t))
     \<and> (\<forall>s. active (p_end_date p) = Some s \<longrightarrow>
          (\<exists>t d. r_dt r = Some t \<and> to_datetime_str P s = Some (Some d) \<and> t \<le> d))
     \<and> (\<forall>b. p_min_lat p = Some b \<longrightarrow> (\<exists>x. r_lat r = Some x \<and> b \<le> x))
     \<and> (\<forall>b. p_max_lat p = Some b \<longrightarrow> (\<exists>x. r_lat r = Some x \<and> x \<le> b))
     \<and> (\<forall>b. p_min_lng p = Some b \<longrightarrow> (\<exists>x. r_lng r = Some x \<and> b \<le> x))
     \<and> (\<forall>b. p_max_lng p = Some b \<longrightarrow> (\<exists>x. r_lng r = Some x \<and> x \<le> b))"

text \<open>
  The search of the program is the section's substring match when its pattern compiles to
  the search for the pattern as literal text, as a pattern of letters and digits does.
\<close>

definition literal_pattern :: "pandas \<Rightarrow> string option \<Rightarrow> bool" where
  "literal_pattern P q \<longleftrightarrow>
     (\<forall>s. active q = Some s \<longrightarrow> re_compile P (lower s) = Some (substring (lower s)))"



text \<open>The frame that \<open>_load_df\<close> stores for a table.\<close>

definition load :: "pandas \<Rightarrow> raw_df \<Rightarrow> frame" where
  "load P df = build_frame P df (auto_map_columns (df_columns df))"



section \<open>Example data\<close>

text \<open>A row that carries coordinates only, and a frame of such rows.\<close>

definition geo_row :: "real option \<Rightarrow> real option \<Rightarrow> record_row" where
  "geo_row la lo =
     \<lparr>r_raw = (\<lambda>c. NaN), r_dt = None, r_cat = Val [], r_desc = Val [], r_lat = la, r_lng = lo,
      r_id = [], r_city = Val [], r_state = Val []\<rparr>"

definition geo_frame :: "(real option \<times> real option) list \<Rightarrow> frame" where
  "geo_frame ps = \<lparr>f_columns = [], f_rows = map (\<lambda>(la, lo). geo_row la lo) ps\<rparr>"

text \<open>A midnight timestamp, and a row that carries an identifier, a timestamp and a category.\<close>

definition ts :: "int \<Rightarrow> int \<Rightarrow> int \<Rightarrow> timestamp" where
  "ts y m d = (y, m, d, 0, 0, 0, 0)"

definition dt_row :: "string \<Rightarrow> timestamp option \<Rightarrow> string \<Rightarrow> record_row" where
  "dt_row i t c =
     \<lparr>r_raw = (\<lambda>c. NaN), r_dt = t, r_cat = Val c, r_desc = Val [], r_lat = None, r_lng = None,
      r_id = i, r_city = Val [], r_state = Val []\<rparr>"

definition dt_frame :: "record_row list \<Rightarrow> frame" where
  "dt_frame rs = \<lparr>f_columns = [], f_rows = rs\<rparr>"

text \<open>
  The libraries on the values the examples use. The search treats its pattern as literal
  text, which is what the regular-expression search does for a pattern of letters; the
  pattern \<open>(\<close> does not compile. \<open>strptime\<close> reads \<open>01-02-2021\<close> with the pattern
  \<open>%d-%m-%Y\<close> as the first of February, the general parser reads it month first as the
  second of January; \<open>strptime\<close> reads \<open>1500-01-01\<close>, which the general parser coerces to
  NaT as out of its range. The bulk parse fixes the format of the column from its first
  present text, as pandas does from 2.0, and coerces a text of another format to NaT.
\<close>

definition demo_strptime :: "string \<Rightarrow> string \<Rightarrow> timestamp option" where
  "demo_strptime s f =
     (if s = ''2021-03-01'' \<and> f = ''%Y-%m-%d'' then Some (ts 2021 3 1)
      else if s = ''03/02/2021'' \<and> f = ''%m/%d/%Y'' then Some (ts 2021 3 2)
      else if s = ''01-02-2021'' \<and> f = ''%d-%m-%Y'' then Some (ts 2021 2 1)
      else if s = ''1500-01-01'' \<and> f = ''%Y-%m-%d'' then Some (ts 1500 1 1)
      else None)"

definition demo_parse :: "string \<Rightarrow> timestamp option" where
  "demo_parse s =
     (if s = ''2021-03-01'' then Some (ts 2021 3 1)
      else if s = ''2021-03-02'' then Some (ts 2021 3 2)
      else if s = ''03/02/2021'' then Some (ts 2021 3 2)
      else if s = ''01-02-2021'' then Some (ts 2021 1 2)
      else None)"

definition demo_to_datetime :: "cell \<Rightarrow> timestamp option option" where
  "demo_to_datetime c = (case c of NaN \<Rightarrow> Some None | Val s \<Rightarrow> Some (demo_parse s))"

definition demo_to_datetime_str :: "string \<Rightarrow> timestamp option option" where
  "demo_to_datetime_str s = (case demo_parse s of None \<Rightarrow> None | Some t \<Rightarrow> Some (Some t))"

definition demo_to_numeric :: "string \<Rightarrow> real option" where
  "demo_to_numeric s =
     (if s = ''34.05'' then Some (3405 / 100)
      else if s = ''34.06'' then Some (3406 / 100)
      else if s = ''-118.25'' then Some (- 11825 / 100)
      else if s = ''-118.26'' then Some (- 11826 / 100)
      else None)"

definition demo_format :: "string \<Rightarrow> nat" where
  "demo_format s =
     (if s = ''2021-03-01'' \<or> s = ''2021-03-02'' \<or> s = ''1500-01-01'' then 1
      else if s = ''03/02/2021'' then 2
      else if s = ''01-02-2021'' then 3
      else 0)"

definition demo_to_datetime_series :: "cell list \<Rightarrow> timestamp option list option" where
  "demo_to_datetime_series cs =
     (case find (\<lambda>c. c \<noteq> NaN) cs of
        None \<Rightarrow> Some (map (\<lambda>c. None) cs)
      | Some c0 \<Rightarrow>
          Some (map (\<lambda>c. case c of
                           NaN \<Rightarrow> None
                         | Val s \<Rightarrow>
                             if demo_format s = demo_format (py_str c0) then demo_parse s
                             else None)
                  cs))"

definition demo :: pandas where
  "demo =
     \<lparr>strptime = demo_strptime,
      to_datetime = demo_to_datetime,
      to_datetime_series = demo_to_datetime_series,
      to_datetime_str = demo_to_datetime_str,
      to_numeric = demo_to_numeric,
      re_compile = (\<lambda>p. if p = ''('' then None else Some (substring p)),
      astype_str_keeps_na = False\<rparr>"

text \<open>A library whose bulk parse raises, so that the per-row parse runs.\<close>

definition demo_raising :: pandas where
  "demo_raising = demo\<lparr>to_datetime_series := (\<lambda>cs. None)\<rparr>"

text \<open>The same library with the text coercion of pandas 3, which keeps a missing value.\<close>

definition demo3 :: pandas where
  "demo3 = demo\<lparr>astype_str_keeps_na := True\<rparr>"

text \<open>Three records: two thefts, of which one has no timestamp, and an assault.\<close>

definition theft_rows :: "record_row list" where
  "theft_rows =
     [dt_row ''0'' (Some (ts 2021 3 1)) ''THEFT'',
      dt_row ''1'' (Some (ts 2021 3 2)) ''ASSAULT'',
      dt_row ''2'' None ''Theft'']"

text \<open>A raw row from an association list; a column that is not listed is missing.\<close>

definition row_of :: "(string \<times> cell) list \<Rightarrow> raw_row" where
  "row_of al = (\<lambda>c. case map_of al c of Some v \<Rightarrow> v | None \<Rightarrow> NaN)"

text \<open>
  A table with a date and a category column; the second row has no category and the third
  no date.
\<close>

definition crime_df :: raw_df where
  "crime_df =
     \<lparr>df_columns = [''Date'', ''Category''],
      df_rows =
        [row_of [(''Date'', Val ''2021-03-01''), (''Category'', Val ''THEFT'')],
         row_of [(''Date'', Val ''03/02/2021''), (''Category'', NaN)],
         row_of [(''Date'', NaN), (''Category'', Val ''THEFT'')]]\<rparr>"

text \<open>A table with a date column only, and an environment without the file.\<close>

definition date_df :: raw_df where
  "date_df =
     \<lparr>df_columns = [''Date''],
      df_rows = [row_of [(''Date'', Val ''01-02-2021'')], row_of [(''Date'', Val ''1500-01-01'')]]\<rparr>"

definition no_file :: env where
  "no_file = \<lparr>csv_path = ''data/crime.csv'', csv_file = None\<rparr>"

text \<open>A file with the header line only: a table without rows.\<close>

definition header_only :: raw_df where
  "header_only = \<lparr>df_columns = [''Date'', ''Category''], df_rows = []\<rparr>"

definition header_file :: env where
  "header_file = \<lparr>csv_path = ''data/crime.csv'', csv_file = Some header_only\<rparr>"

section \<open>Properties of the schema mapper\<close>

lemma columns_lower_dom_aux:
  "dom (fold (\<lambda>c m. m(lower c \<mapsto> c)) cols m0) = dom m0 \<union> lower ` set cols"
  by (induction cols arbitrary: m0) auto

lemma columns_lower_dom: "dom (columns_lower cols) = lower ` set cols"
  by (simp add: columns_lower_def columns_lower_dom_aux)

lemma columns_lower_val_aux:
  "fold (\<lambda>c m. m(lower c \<mapsto> c)) cols m0 n = Some c \<Longrightarrow>
     (c \<in> set cols \<and> lower c = n) \<or> m0 n = Some c"
proof (induction cols arbitrary: m0)
  case Nil
  then show ?case by simp
next
  case (Cons a cols)
  from Cons.prems have "fold (\<lambda>c m. m(lower c \<mapsto> c)) cols (m0(lower a \<mapsto> a)) n = Some c"
    by (simp only: fold_simps o_apply)
  from Cons.IH [OF this]
  have "(c \<in> set cols \<and> lower c = n) \<or> (m0(lower a \<mapsto> a)) n = Some c" .
  then show ?case by (auto split: if_splits)
qed

lemma columns_lower_val:
  "columns_lower cols n = Some c \<Longrightarrow> c \<in> set cols \<and> lower c = n"
  using columns_lower_val_aux [of cols Map.empty n c] by (simp add: columns_lower_def)

lemma pick_find:
  "map_option lower (pick (columns_lower cols) cands)
     = find (\<lambda>n. n \<in> lower ` set cols) cands"
proof (induction cands)
  case Nil
  show ?case by simp
next
  case (Cons n cands)
  show ?case
  proof (cases "columns_lower cols n")
    case None
    then have "n \<notin> lower ` set cols"
      using columns_lower_dom [of cols] by (metis domIff)
    with None Cons show ?thesis by simp
  next
    case (Some c)
    then have "lower c = n" "c \<in> set cols" using columns_lower_val by auto
    with Some show ?thesis by auto
  qed
qed

lemma pick_member:
  "pick (columns_lower cols) cands = Some c \<Longrightarrow> c \<in> set cols"
  by (induction cands) (auto split: option.splits dest: columns_lower_val)

text \<open>Every candidate name of the source is written in lower case.\<close>

lemma candidates_lower_all:
  "list_all (\<lambda>r. list_all (\<lambda>n. lower n = n) (candidates r))
     [Lat, Lng, Date, Category, Description, Id, City, State]"
  by code_simp

lemma candidates_lower:
  assumes "n \<in> set (candidates r)"
  shows "lower n = n"
proof -
  have "r \<in> set [Lat, Lng, Date, Category, Description, Id, City, State]"
    by (cases r) simp_all
  with candidates_lower_all have "list_all (\<lambda>n. lower n = n) (candidates r)"
    unfolding list_all_iff by blast
  with assms show ?thesis
    unfolding list_all_iff by blast
qed

lemma matches_candidates:
  "n \<in> set (candidates r) \<Longrightarrow> matches cols n \<longleftrightarrow> n \<in> lower ` set cols"
  by (auto simp: matches_def list_ex_iff candidates_lower)

lemma find_matches:
  "find (matches cols) (candidates r) = find (\<lambda>n. n \<in> lower ` set cols) (candidates r)"
  by (rule find_cong) (simp_all add: matches_candidates)

lemma auto_map_find:
  "map_option lower (auto_map_columns cols r) = find (matches cols) (candidates r)"
  by (simp add: auto_map_columns_def pick_find find_matches)

text \<open>
  C5. For every list of raw column names and every role, the mapper selects the first
  candidate of the role's priority list that agrees with some column name up to letter
  case, and the column it returns is a column of the source that agrees with that candidate;
  the role is unmapped exactly when no candidate matches. The selected candidate is the
  same for every ordering of the same column names, and so is the returned column when no
  two column names agree up to letter case.
\<close>

theorem auto_map_first_candidate:
  "map_option lower (auto_map_columns cols r) = find (matches cols) (candidates r)
   \<and> (auto_map_columns cols r = None \<longleftrightarrow> (\<forall>n \<in> set (candidates r). \<not> matches cols n))
   \<and> (\<forall>c. auto_map_columns cols r = Some c \<longrightarrow> c \<in> set cols)
   \<and> (set cols' = set cols \<longrightarrow>
        map_option lower (auto_map_columns cols' r) = map_option lower (auto_map_columns cols r))
   \<and> (set cols' = set cols \<and> inj_on lower (set cols) \<longrightarrow>
        auto_map_columns cols' r = auto_map_columns cols r)"
proof -
  have A: "map_option lower (auto_map_columns cols r) = find (matches cols) (candidates r)"
    by (rule auto_map_find)
  have "auto_map_columns cols r = None \<longleftrightarrow> find (matches cols) (candidates r) = None"
    using A by (metis option.map_disc_iff)
  then have B: "auto_map_columns cols r = None \<longleftrightarrow> (\<forall>n \<in> set (candidates r). \<not> matches cols n)"
    by (auto simp: find_None_iff)
  have C: "\<forall>c. auto_map_columns cols r = Some c \<longrightarrow> c \<in> set cols"
    by (auto simp: auto_map_columns_def dest: pick_member)
  have M: "matches cols' = matches cols" if "set cols' = set cols"
    using that by (auto simp: matches_def list_ex_iff fun_eq_iff)
  have D: "map_option lower (auto_map_columns cols' r) = map_option lower (auto_map_columns cols r)"
    if "set cols' = set cols"
    using M [OF that] by (simp add: auto_map_find)
  have E: "auto_map_columns cols' r = auto_map_columns cols r"
    if S: "set cols' = set cols" and I: "inj_on lower (set cols)"
  proof (cases "auto_map_columns cols r")
    case None
    with D [OF S] show ?thesis by simp
  next
    case (Some c)
    with D [OF S] obtain c' where c': "auto_map_columns cols' r = Some c'" "lower c' = lower c"
      by (cases "auto_map_columns cols' r") auto
    have "c \<in> set cols" using Some C by simp
    moreover have "c' \<in> set cols"
      using c'(1) S by (auto simp: auto_map_columns_def dest: pick_member)
    ultimately have "c' = c" using I c'(2) by (auto dest: inj_onD)
    with Some c' show ?thesis by simp
  qed
  from A B C D E show ?thesis by blast
qed

theorem auto_map_first_candidate_witness:
  "set [''Latitude'', ''x'', ''Lat''] = set [''x'', ''Lat'', ''Latitude'']
   \<and> inj_on lower (set [''x'', ''Lat'', ''Latitude''])
   \<and> auto_map_columns [''x'', ''Lat'', ''Latitude''] Lat = Some ''Latitude''
   \<and> auto_map_columns [''Latitude'', ''x'', ''Lat''] Lat = Some ''Latitude''
   \<and> find (matches [''x'', ''Lat'', ''Latitude'']) (candidates Lat) = Some ''latitude''
   \<and> auto_map_columns [''x'', ''Lat'', ''Latitude''] City = None"
proof -
  have S: "set [''Latitude'', ''x'', ''Lat''] = set [''x'', ''Lat'', ''Latitude'']"
    by auto
  have I: "inj_on lower (set [''x'', ''Lat'', ''Latitude''])"
    by (simp add: lower_def char_lower_def)
  have L: "auto_map_columns [''x'', ''Lat'', ''Latitude''] Lat = Some ''Latitude''"
    by (simp add: auto_map_columns_def columns_lower_def lower_def char_lower_def)
  have N: "\<forall>n \<in> set (candidates City). \<not> matches [''x'', ''Lat'', ''Latitude''] n"
    by (simp add: matches_def lower_def char_lower_def)
  from auto_map_first_candidate [of "[''x'', ''Lat'', ''Latitude'']" Lat "[''Latitude'', ''x'', ''Lat'']"]
  have "find (matches [''x'', ''Lat'', ''Latitude'']) (candidates Lat) = Some ''latitude''"
    and "auto_map_columns [''Latitude'', ''x'', ''Lat''] Lat = Some ''Latitude''"
    using S I L by (simp_all add: lower_def char_lower_def)
  moreover from auto_map_first_candidate [of "[''x'', ''Lat'', ''Latitude'']" City "[]"]
  have "auto_map_columns [''x'', ''Lat'', ''Latitude''] City = None"
    using N by blast
  ultimately show ?thesis using S I L by blast
qed

text \<open>
  Two columns whose names agree up to letter case: the mapper returns the one that comes
  last in the source.
\<close>

lemma auto_map_case_collision:
  "auto_map_columns [''Lat'', ''LAT''] Lat = Some ''LAT''
   \<and> auto_map_columns [''LAT'', ''Lat''] Lat = Some ''Lat''"
  by (simp add: auto_map_columns_def columns_lower_def lower_def char_lower_def)

section \<open>Properties of the geographic views\<close>

lemma update_sum:
  "sum_list (map snd (AList.update k (Suc (grid_get g k)) g)) = Suc (sum_list (map snd g))"
  by (induction g) (auto simp: grid_get_def)

lemma grid_add_sum: "sum_list (map snd (grid_add k g)) = Suc (sum_list (map snd g))"
  by (simp add: grid_add_def update_sum)

lemma heat_grid_sum_aux:
  "sum_list (map snd (fold (\<lambda>(la, lo) grid. grid_add (fi la, fj lo) grid) pairs g))
     = sum_list (map snd g) + length pairs"
  by (induction pairs arbitrary: g) (auto simp: grid_add_sum)

lemma heat_grid_sum:
  "sum_list (map snd (heat_grid a b c d bins pairs)) = length pairs"
  using heat_grid_sum_aux [of "\<lambda>la. cell_index la a b bins" "\<lambda>lo. cell_index lo c d bins" pairs "[]"]
  by (simp add: heat_grid_def)

lemma grid_add_keys: "fst ` set (grid_add k g) = insert k (fst ` set g)"
proof -
  have "set (map fst (grid_add k g)) = insert k (set (map fst g))"
    unfolding grid_add_def AList.update_keys by auto
  then show ?thesis by simp
qed

lemma heat_grid_keys_aux:
  "fst ` set (fold (\<lambda>(la, lo) grid. grid_add (fi la, fj lo) grid) pairs g)
     = fst ` set g \<union> (\<lambda>(la, lo). (fi la, fj lo)) ` set pairs"
proof (induction pairs arbitrary: g)
  case Nil
  show ?case by simp
next
  case (Cons p pairs)
  obtain la lo where p: "p = (la, lo)" by (cases p)
  have "fst ` set (fold (\<lambda>(la, lo) grid. grid_add (fi la, fj lo) grid) (p # pairs) g)
          = fst ` set (grid_add (fi la, fj lo) g) \<union> (\<lambda>(la, lo). (fi la, fj lo)) ` set pairs"
    using Cons.IH [of "grid_add (fi la, fj lo) g"] by (simp add: p)
  also have "\<dots> = fst ` set g \<union> (\<lambda>(la, lo). (fi la, fj lo)) ` set (p # pairs)"
    unfolding grid_add_keys by (simp add: p)
  finally show ?case .
qed

lemma heat_grid_keys:
  "fst ` set (heat_grid a b c d bins pairs)
     = (\<lambda>(la, lo). (cell_index la a b bins, cell_index lo c d bins)) ` set pairs"
  using heat_grid_keys_aux [of "\<lambda>la. cell_index la a b bins" "\<lambda>lo. cell_index lo c d bins" pairs "[]"]
  by (simp add: heat_grid_def)

lemma fold_min_le: "fold min ys (x::real) \<le> x"
proof (induction ys arbitrary: x)
  case Nil
  show ?case by simp
next
  case (Cons a ys)
  have "fold min ys (min a x) \<le> min a x" by (rule Cons.IH)
  then show ?case by simp
qed

lemma fold_min_le_mem: "y \<in> set ys \<Longrightarrow> fold min ys (x::real) \<le> y"
proof (induction ys arbitrary: x)
  case Nil
  then show ?case by simp
next
  case (Cons a ys)
  show ?case
  proof (cases "y = a")
    case True
    have "fold min ys (min a x) \<le> min a x" by (rule fold_min_le)
    then show ?thesis using True by simp
  next
    case False
    with Cons show ?thesis by simp
  qed
qed

lemma series_min_le: "v \<in> set xs \<Longrightarrow> series_min xs \<le> v"
  by (cases xs) (auto simp: series_min_def fold_min_le fold_min_le_mem)

lemma fold_max_ge: "x \<le> fold max ys (x::real)"
proof (induction ys arbitrary: x)
  case Nil
  show ?case by simp
next
  case (Cons a ys)
  have "max a x \<le> fold max ys (max a x)" by (rule Cons.IH)
  then show ?case by simp
qed

lemma fold_max_ge_mem: "y \<in> set ys \<Longrightarrow> y \<le> fold max ys (x::real)"
proof (induction ys arbitrary: x)
  case Nil
  then show ?case by simp
next
  case (Cons a ys)
  show ?case
  proof (cases "y = a")
    case True
    have "max a x \<le> fold max ys (max a x)" by (rule fold_max_ge)
    then show ?thesis using True by simp
  next
    case False
    with Cons show ?thesis by simp
  qed
qed

lemma series_max_ge: "v \<in> set xs \<Longrightarrow> v \<le> series_max xs"
  by (cases xs) (auto simp: series_max_def fold_max_ge fold_max_ge_mem)

lemma cell_index_range:
  assumes "lo \<le> v" and "0 < step" and "1 \<le> bins"
  shows "0 \<le> cell_index v lo step bins \<and> cell_index v lo step bins \<le> bins - 1"
proof -
  have "0 \<le> (v - lo) / step" using assms by simp
  then have "0 \<le> py_int ((v - lo) / step)" by (simp add: py_int_def)
  with assms show ?thesis by (simp add: cell_index_def)
qed

lemma length_dropna: "length (dropna xs) = length (filter (\<lambda>x. x \<noteq> None) xs)"
  by (induction xs rule: dropna.induct) auto

lemma dropna_nil_iff: "dropna xs = [] \<longleftrightarrow> list_all (\<lambda>x. x = None) xs"
  by (induction xs rule: dropna.induct) auto

lemma has_both_not_no_geo: "list_ex has_both (f_rows f) \<Longrightarrow> \<not> no_geo f"
  by (auto simp: no_geo_def list_ex_iff list_all_iff has_both_def)

lemma heatmap_df_cases:
  "heatmap_df f bins = Inl NoGeoData \<and> no_geo f
   \<or> heatmap_df f bins = Inl ZeroDivisionError \<and> \<not> no_geo f \<and> bins = 0
   \<or> (\<exists>h. heatmap_df f bins = Inr h) \<and> \<not> no_geo f"
  by (auto simp: heatmap_df_def Let_def)

lemma features_filter:
  "map ft_coordinates (features rs) = map (\<lambda>r. (the (r_lng r), the (r_lat r))) (filter has_both rs)
   \<and> map ft_id (features rs) = map r_id (filter has_both rs)"
  by (induction rs) (auto simp: has_both_def split: option.splits)

lemmas heat_eval =
  heatmap_df_def geo_frame_def geo_row_def no_geo_def series_min_def series_max_def heat_grid_def
  grid_add_def grid_get_def cell_index_def py_int_def has_both_def geojson_df_def Let_def

text \<open>
  In the branch that subdivides, the counts of the returned cells add up to the number of
  pairs that line 356 forms: the smaller of the number of rows with a latitude and the
  number of rows with a longitude. Every pair falls into a cell whose index lies between
  \<open>0\<close> and \<open>bins - 1\<close> on both axes.
\<close>

lemma heatmap_counts_sum:
  assumes "heatmap_df f bins = Inr h" and "h_bounds h \<noteq> None"
  shows "sum_list (map (\<lambda>(la, lo, c). c) (h_grid h))
           = min (length (filter (\<lambda>r. r_lat r \<noteq> None) (f_rows f)))
                 (length (filter (\<lambda>r. r_lng r \<noteq> None) (f_rows f)))"
proof -
  define lat where "lat = dropna (map r_lat (f_rows f))"
  define lng where "lng = dropna (map r_lng (f_rows f))"
  define g where "g = heat_grid (series_min lat) ((series_max lat - series_min lat) / real_of_int bins)
      (series_min lng) ((series_max lng - series_min lng) / real_of_int bins) bins (zip lat lng)"
  have "map (\<lambda>(la, lo, c). c) (h_grid h) = map snd g"
    using assms unfolding heatmap_df_def Let_def lat_def [symmetric] lng_def [symmetric]
    by (auto simp: g_def split: if_splits)
  then have "sum_list (map (\<lambda>(la, lo, c). c) (h_grid h)) = length (zip lat lng)"
    by (simp add: g_def heat_grid_sum)
  also have "\<dots> = min (length lat) (length lng)" by simp
  also have "length lat = length (filter (\<lambda>r. r_lat r \<noteq> None) (f_rows f))"
    by (simp add: lat_def length_dropna filter_map o_def)
  also have "length lng = length (filter (\<lambda>r. r_lng r \<noteq> None) (f_rows f))"
    by (simp add: lng_def length_dropna filter_map o_def)
  finally show ?thesis .
qed

lemma heat_pairs_index_range:
  assumes "(la, lo) \<in> set (zip lat lng)" and "series_min lat \<noteq> series_max lat"
    and "series_min lng \<noteq> series_max lng" and "1 \<le> bins"
  shows "0 \<le> cell_index la (series_min lat) ((series_max lat - series_min lat) / real_of_int bins) bins
       \<and> cell_index la (series_min lat) ((series_max lat - series_min lat) / real_of_int bins) bins \<le> bins - 1
       \<and> 0 \<le> cell_index lo (series_min lng) ((series_max lng - series_min lng) / real_of_int bins) bins
       \<and> cell_index lo (series_min lng) ((series_max lng - series_min lng) / real_of_int bins) bins \<le> bins - 1"
proof -
  have la: "la \<in> set lat" and lo: "lo \<in> set lng"
    using assms(1) by (auto dest: set_zip_leftD set_zip_rightD)
  have "series_min lat \<le> series_max lat"
    using series_min_le [OF la] series_max_ge [OF la] by simp
  with assms(2) have "series_min lat < series_max lat" by simp
  then have s1: "0 < (series_max lat - series_min lat) / real_of_int bins"
    using assms(4) by simp
  have "series_min lng \<le> series_max lng"
    using series_min_le [OF lo] series_max_ge [OF lo] by simp
  with assms(3) have "series_min lng < series_max lng" by simp
  then have s2: "0 < (series_max lng - series_min lng) / real_of_int bins"
    using assms(4) by simp
  show ?thesis
    using cell_index_range [OF series_min_le [OF la] s1 assms(4)]
      cell_index_range [OF series_min_le [OF lo] s2 assms(4)]
    by simp
qed

text \<open>
  C1 states that in the branch that subdivides, the counts of all cells add up to the number
  of records with both coordinates, every index lying between \<open>0\<close> and \<open>bins - 1\<close>. The
  indices do (\<open>heat_pairs_index_range\<close>); the counts do not. Of three rows, one has a latitude
  only, one both coordinates, one a longitude only; \<open>bins\<close> is 5. The latitude of the
  first row is paired with the longitude of the second, and the latitude of the second with
  the longitude of the third: the counts add up to 2, one record has both coordinates, and
  the cell of that record, with centre \<open>(9, 9)\<close>, is not returned.
\<close>

theorem heatmap_counts_exceed_records:
  "heatmap_df (geo_frame [(Some 0, None), (Some 10, Some 10), (None, Some 0)]) 5
     = Inr \<lparr>h_bins = 5, h_bounds = Some (0, 10, 0, 10), h_grid = [(1, 9, 1), (9, 1, 1)]\<rparr>
   \<and> length (filter has_both
        (f_rows (geo_frame [(Some 0, None), (Some 10, Some 10), (None, Some 0)]))) = 1"
  by (simp add: heat_eval)

text \<open>
  C2 states that when the latitudes or the longitudes of the records with both coordinates
  are all equal, the result is one cell at the minima whose count is the number of those
  records. Of two rows with the same latitude, the second without a longitude, the single
  cell counts both, and one record has both coordinates. Of three rows, the two with both
  coordinates share their latitude; the latitude of the third widens the range, and the
  grid is subdivided.
\<close>

theorem heatmap_degenerate_count:
  "heatmap_df (geo_frame [(Some 1, Some 2), (Some 1, None)]) 10
     = Inr \<lparr>h_bins = 10, h_bounds = None, h_grid = [(1, 2, 2)]\<rparr>
   \<and> length (filter has_both (f_rows (geo_frame [(Some 1, Some 2), (Some 1, None)]))) = 1
   \<and> heatmap_df (geo_frame [(Some 1, Some 2), (Some 3, None), (Some 1, Some 5)]) 10
       = Inr \<lparr>h_bins = 10, h_bounds = Some (1, 3, 2, 5),
              h_grid = [(11 / 10, 43 / 20, 1), (29 / 10, 97 / 20, 1)]\<rparr>
   \<and> map r_lat (filter has_both
        (f_rows (geo_frame [(Some 1, Some 2), (Some 3, None), (Some 1, Some 5)]))) = [Some 1, Some 1]"
  by (simp add: heat_eval)

text \<open>
  C3, as the claim states it, fails: of two rows, one has a latitude only and the other a
  longitude only. No record has both coordinates, and neither operation fails.
\<close>

theorem geo_guard_counterexample:
  "\<not> list_ex has_both (f_rows (geo_frame [(Some 1, None), (None, Some 2)]))
   \<and> geojson_df (geo_frame [(Some 1, None), (None, Some 2)]) = Inr []
   \<and> heatmap_df (geo_frame [(Some 1, None), (None, Some 2)]) 10
       = Inr \<lparr>h_bins = 10, h_bounds = None, h_grid = [(1, 2, 1)]\<rparr>"
  by (simp add: heat_eval)

text \<open>
  C3, amended. \<open>geojson\<close> and \<open>heatmap\<close> fail with NoGeoData exactly when every record
  lacks a latitude or every record lacks a longitude (so also on an empty store); whenever
  some record has both coordinates, neither fails with NoGeoData. \<open>geojson\<close> fails in no
  other way; its features are the records with both coordinates, one each, in the order of
  the rows, and the other records are skipped. Whether the arithmetic of \<open>heatmap\<close> on
  floats can fail is left out.
\<close>

theorem geo_guard:
  "(geojson_df f = Inl NoGeoData
      \<longleftrightarrow> (\<forall>r \<in> set (f_rows f). r_lat r = None) \<or> (\<forall>r \<in> set (f_rows f). r_lng r = None))
   \<and> (heatmap_df f bins = Inl NoGeoData
      \<longleftrightarrow> (\<forall>r \<in> set (f_rows f). r_lat r = None) \<or> (\<forall>r \<in> set (f_rows f). r_lng r = None))
   \<and> (\<forall>e. geojson_df f = Inl e \<longrightarrow> e = NoGeoData)
   \<and> ((\<exists>r \<in> set (f_rows f). has_both r) \<longrightarrow>
        (\<exists>fs. geojson_df f = Inr fs) \<and> heatmap_df f bins \<noteq> Inl NoGeoData)
   \<and> (\<forall>fs. geojson_df f = Inr fs \<longrightarrow>
        map ft_coordinates fs = map (\<lambda>r. (the (r_lng r), the (r_lat r))) (filter has_both (f_rows f))
        \<and> map ft_id fs = map r_id (filter has_both (f_rows f)))"
proof -
  have G: "no_geo f \<longleftrightarrow>
      (\<forall>r \<in> set (f_rows f). r_lat r = None) \<or> (\<forall>r \<in> set (f_rows f). r_lng r = None)"
    by (simp add: no_geo_def list_all_iff)
  have A: "geojson_df f = Inl NoGeoData \<longleftrightarrow> no_geo f"
    by (simp add: geojson_df_def)
  have B: "heatmap_df f bins = Inl NoGeoData \<longleftrightarrow> no_geo f"
    using heatmap_df_cases [of f bins] by (auto simp: NoGeoData_def)
  have C: "e = NoGeoData" if "geojson_df f = Inl e" for e
    using that by (simp add: geojson_df_def split: if_splits)
  have D: "(\<exists>fs. geojson_df f = Inr fs) \<and> heatmap_df f bins \<noteq> Inl NoGeoData"
    if "\<exists>r \<in> set (f_rows f). has_both r"
  proof -
    have "\<not> no_geo f" using that has_both_not_no_geo [of f] by (simp add: list_ex_iff)
    then show ?thesis
      using B by (auto simp: geojson_df_def)
  qed
  have E: "map ft_coordinates fs = map (\<lambda>r. (the (r_lng r), the (r_lat r))) (filter has_both (f_rows f))
        \<and> map ft_id fs = map r_id (filter has_both (f_rows f))"
    if "geojson_df f = Inr fs" for fs
    using that features_filter [of "f_rows f"] by (auto simp: geojson_df_def split: if_splits)
  show ?thesis
    using A B C D E unfolding G by blast
qed

theorem geo_guard_witness:
  "(\<exists>r \<in> set (f_rows (geo_frame [(Some 1, Some 2), (None, Some 3)])). has_both r)
   \<and> (\<exists>fs. geojson_df (geo_frame [(Some 1, Some 2), (None, Some 3)]) = Inr fs
          \<and> map ft_coordinates fs = [(2, 1)])
   \<and> heatmap_df (geo_frame [(Some 1, Some 2), (None, Some 3)]) 5 \<noteq> Inl NoGeoData
   \<and> geojson_df (geo_frame [(None, Some 3)]) = Inl NoGeoData
   \<and> heatmap_df (geo_frame [(None, Some 3)]) 5 = Inl NoGeoData"
proof -
  have H: "\<exists>r \<in> set (f_rows (geo_frame [(Some 1, Some 2), (None, Some 3)])). has_both r"
    by (simp add: geo_frame_def geo_row_def has_both_def)
  have F: "filter has_both (f_rows (geo_frame [(Some 1, Some 2), (None, Some 3)]))
             = [geo_row (Some 1) (Some 2)]"
    by (simp add: geo_frame_def geo_row_def has_both_def)
  have N: "\<forall>r \<in> set (f_rows (geo_frame [(None, Some 3)])). r_lat r = None"
    by (simp add: geo_frame_def geo_row_def)
  from geo_guard [of "geo_frame [(Some 1, Some 2), (None, Some 3)]" 5] H
  have "\<exists>fs. geojson_df (geo_frame [(Some 1, Some 2), (None, Some 3)]) = Inr fs
          \<and> map ft_coordinates fs = [(2, 1)]"
    and "heatmap_df (geo_frame [(Some 1, Some 2), (None, Some 3)]) 5 \<noteq> Inl NoGeoData"
    unfolding F by (auto simp: geo_row_def)
  moreover from geo_guard [of "geo_frame [(None, Some 3)]" 5] N
  have "geojson_df (geo_frame [(None, Some 3)]) = Inl NoGeoData"
    and "heatmap_df (geo_frame [(None, Some 3)]) 5 = Inl NoGeoData"
    by auto
  ultimately show ?thesis using H by simp
qed

section \<open>Properties of the listing\<close>

lemma text_matches_spec: "text_matches (substring (lower q)) c \<longleftrightarrow> spec_text_match q c"
  by (cases c) (simp_all add: text_matches_def spec_text_match_def)

lemma q_filter_sat:
  assumes "q_filter P q = Inr fq" and "literal_pattern P q"
  shows "fq r \<longleftrightarrow> (\<forall>s. active q = Some s \<longrightarrow>
           spec_text_match s (r_desc r) \<or> spec_text_match s (r_cat r))"
proof (cases "active q")
  case None
  with assms(1) show ?thesis by (auto simp: q_filter_def)
next
  case (Some s)
  with assms(2) have "re_compile P (lower s) = Some (substring (lower s))"
    by (simp add: literal_pattern_def)
  with assms(1) Some have "fq = (\<lambda>r. text_matches (substring (lower s)) (r_desc r)
      \<or> text_matches (substring (lower s)) (r_cat r))"
    by (auto simp: q_filter_def)
  then show ?thesis using Some by (simp add: text_matches_spec)
qed

lemma eq_filter_sat:
  "eq_filter field v r \<longleftrightarrow> (\<forall>c. active v = Some c \<longrightarrow> spec_exact_match c (field r))"
  by (cases "field r") (auto simp: eq_filter_def spec_exact_match_def split: option.splits)

lemma both_some:
  "(case (x, b) of (Some t, Some d) \<Rightarrow> cmp t d | _ \<Rightarrow> False)
     \<longleftrightarrow> (\<exists>t d. x = Some t \<and> b = Some d \<and> cmp t d)"
  by (cases x; cases b) simp_all

lemma date_filter_sat:
  assumes "date_filter P cmp detail v = Inr fd"
  shows "fd r \<longleftrightarrow> (\<forall>s. active v = Some s \<longrightarrow>
        (\<exists>t d. r_dt r = Some t \<and> to_datetime_str P s = Some (Some d) \<and> cmp t d))"
proof (cases "active v")
  case None
  with assms show ?thesis by (auto simp: date_filter_def)
next
  case (Some s)
  with assms obtain b where b: "to_datetime_str P s = Some b"
    and fd: "fd = (\<lambda>r. case (r_dt r, b) of (Some t, Some d) \<Rightarrow> cmp t d | _ \<Rightarrow> False)"
    by (cases "to_datetime_str P s") (simp_all add: date_filter_def)
  show ?thesis unfolding fd both_some using Some b by simp
qed

lemma bound_filter_sat:
  "bound_filter field cmp v r \<longleftrightarrow> (\<forall>b. v = Some b \<longrightarrow> (\<exists>x. field r = Some x \<and> cmp x b))"
  by (auto simp: bound_filter_def split: option.splits)

lemma incidents_filter_sat:
  assumes "incidents_filter P p = Inr filt" and lit: "literal_pattern P (p_q p)"
  shows "filt r \<longleftrightarrow> spec_satisfies P p r"
proof -
  from assms obtain fq fs fe where
    q: "q_filter P (p_q p) = Inr fq" and
    s: "date_filter P (\<lambda>t d. d \<le> t) ''Invalid start_date'' (p_start_date p) = Inr fs" and
    e: "date_filter P (\<lambda>t d. t \<le> d) ''Invalid end_date'' (p_end_date p) = Inr fe" and
    filt: "filt = (\<lambda>r. fq r
                 \<and> eq_filter r_cat (p_category p) r
                 \<and> eq_filter r_city (p_city p) r
                 \<and> eq_filter r_state (p_state p) r
                 \<and> fs r \<and> fe r
                 \<and> bound_filter r_lat (\<lambda>x b. b \<le> x) (p_min_lat p) r
                 \<and> bound_filter r_lat (\<lambda>x b. x \<le> b) (p_max_lat p) r
                 \<and> bound_filter r_lng (\<lambda>x b. b \<le> x) (p_min_lng p) r
                 \<and> bound_filter r_lng (\<lambda>x b. x \<le> b) (p_max_lng p) r)"
    by (auto simp: incidents_filter_def split: sum.splits)
  show ?thesis
    unfolding filt spec_satisfies_def q_filter_sat [OF q lit] date_filter_sat [OF s]
      date_filter_sat [OF e] eq_filter_sat bound_filter_sat
    by (rule refl)
qed

lemma incidents_filter_page:
  "incidents_filter P (p\<lparr>p_limit := l, p_offset := off\<rparr>) = incidents_filter P p"
  by (simp add: incidents_filter_def cong: sum.case_cong)

lemma length_sort_values: "length (sort_values a xs) = length xs"
  by (simp add: sort_values_def Let_def sum_length_filter_compl)

lemma length_apply_sort: "length (apply_sort s xs) = length xs"
  by (simp add: apply_sort_def length_sort_values)

lemma slice_beyond: "0 \<le> a \<Longrightarrow> int (length xs) \<le> a \<Longrightarrow> slice xs a b = []"
  by (auto simp: slice_def Let_def)

lemma slice_take_drop:
  "0 \<le> a \<Longrightarrow> 0 \<le> l \<Longrightarrow> slice xs a (a + l) = take (nat l) (drop (nat a) xs)"
  by (auto simp: slice_def Let_def min_def)

lemma sort_key_unique:
  assumes d: "distinct (map k ys)" and s: "set zs = set ys" and l: "length zs = length ys"
  shows "sort_key k zs = sort_key k ys"
proof -
  have inj: "inj_on k (set ys)" using d by (simp add: distinct_map)
  have dz: "distinct (map k zs)"
  proof -
    have "card (set (map k zs)) = card (set (map k ys))" using s by simp
    also have "\<dots> = length (map k ys)" using d by (rule distinct_card)
    also have "\<dots> = length (map k zs)" using l by simp
    finally show ?thesis by (rule card_distinct)
  qed
  have D: "distinct (map k (sort_key k us))" if "distinct (map k us)" for us
  proof -
    have "card (set (map k (sort_key k us))) = card (set (map k us))" by simp
    also have "\<dots> = length (map k us)" using that by (rule distinct_card)
    also have "\<dots> = length (map k (sort_key k us))" by simp
    finally show ?thesis by (rule card_distinct)
  qed
  have "map k (sort_key k zs) = map k (sort_key k ys)"
  proof (rule sorted_distinct_set_unique)
    show "sorted (map k (sort_key k zs))" by (rule sorted_sort_key)
    show "sorted (map k (sort_key k ys))" by (rule sorted_sort_key)
    show "distinct (map k (sort_key k zs))" using dz by (rule D)
    show "distinct (map k (sort_key k ys))" using d by (rule D)
    show "set (map k (sort_key k zs)) = set (map k (sort_key k ys))" using s by simp
  qed
  moreover have "inj_on k (set (sort_key k zs) \<union> set (sort_key k ys))"
    using inj s by simp
  ultimately show ?thesis by (simp add: inj_on_map_eq_map)
qed

lemma sort_key_rev_distinct:
  "distinct (map k ys) \<Longrightarrow> sort_key k (rev ys) = sort_key k ys"
  by (rule sort_key_unique) simp_all

lemma filter_has_dt_sort_values:
  "filter has_dt (sort_values a xs)
     = (if a then sort_key dt_key (filter has_dt xs)
        else rev (sort_key dt_key (rev (filter has_dt xs))))"
  by (simp add: sort_values_def Let_def filter_sort)

lemma sort_values_tail:
  "sort_values a xs = filter has_dt (sort_values a xs) @ filter (\<lambda>r. \<not> has_dt r) xs"
  unfolding filter_has_dt_sort_values by (simp add: sort_values_def Let_def)

lemma set_sort_values: "set (sort_values a xs) = set xs"
  by (auto simp: sort_values_def Let_def)

text \<open>
  C7, amended. When the present timestamps of the filtered records are pairwise distinct,
  sorting with \<open>sort="-date"\<close> and with \<open>sort="date"\<close> gives exactly reversed orders
  of the records with a present timestamp. In both directions the records without a
  timestamp form the tail of the result, in their original order, and the records with a
  timestamp before them are in ascending, respectively descending, order.
\<close>

theorem sort_reversal:
  "(distinct (map r_dt (filter has_dt xs)) \<longrightarrow>
      filter has_dt (apply_sort ''-date'' xs) = rev (filter has_dt (apply_sort ''date'' xs)))
   \<and> apply_sort ''date'' xs = filter has_dt (apply_sort ''date'' xs) @ filter (\<lambda>r. \<not> has_dt r) xs
   \<and> apply_sort ''-date'' xs = filter has_dt (apply_sort ''-date'' xs) @ filter (\<lambda>r. \<not> has_dt r) xs
   \<and> sorted (map dt_key (filter has_dt (apply_sort ''date'' xs)))
   \<and> sorted (rev (map dt_key (filter has_dt (apply_sort ''-date'' xs))))
   \<and> set (apply_sort ''date'' xs) = set xs \<and> set (apply_sort ''-date'' xs) = set xs
   \<and> length (apply_sort ''date'' xs) = length xs \<and> length (apply_sort ''-date'' xs) = length xs"
proof -
  have asc: "apply_sort ''date'' xs = sort_values True xs"
    and desc: "apply_sort ''-date'' xs = sort_values False xs"
    by (simp_all add: apply_sort_def)
  have A: "filter has_dt (sort_values False xs) = rev (filter has_dt (sort_values True xs))"
    if d: "distinct (map r_dt (filter has_dt xs))"
  proof -
    have M: "map dt_key (filter has_dt xs) = map the (map r_dt (filter has_dt xs))"
      by (simp add: dt_key_def has_dt_def o_def cong: map_cong split: option.splits)
    have "inj_on the (set (map r_dt (filter has_dt xs)))"
      by (rule inj_onI) (auto simp: has_dt_def)
    with d have "distinct (map the (map r_dt (filter has_dt xs)))"
      by (simp only: distinct_map)
    then have "distinct (map dt_key (filter has_dt xs))"
      unfolding M .
    then show ?thesis
      by (simp add: filter_has_dt_sort_values sort_key_rev_distinct)
  qed
  have S1: "sorted (map dt_key (filter has_dt (sort_values True xs)))"
    by (simp add: filter_has_dt_sort_values sorted_sort_key)
  have S2: "sorted (rev (map dt_key (filter has_dt (sort_values False xs))))"
    by (simp add: filter_has_dt_sort_values rev_map sorted_sort_key)
  show ?thesis
    unfolding asc desc
    using A S1 S2 sort_values_tail [of True xs] sort_values_tail [of False xs]
    by (simp add: set_sort_values length_sort_values)
qed

lemmas row_eval = dt_row_def ts_def has_dt_def dt_key_def sort_values_def apply_sort_def Let_def

text \<open>
  C7, as the claim states it, fails: two records with the same timestamp come out in the
  same order in both directions.
\<close>

theorem sort_reversal_counterexample:
  "map r_id (filter has_dt (apply_sort ''-date''
      [dt_row ''A'' (Some (ts 2021 3 1)) [], dt_row ''B'' (Some (ts 2021 3 1)) []])) = [''A'', ''B'']
   \<and> map r_id (rev (filter has_dt (apply_sort ''date''
      [dt_row ''A'' (Some (ts 2021 3 1)) [], dt_row ''B'' (Some (ts 2021 3 1)) []]))) = [''B'', ''A'']"
  by (simp add: row_eval)

theorem sort_reversal_witness:
  "distinct (map r_dt (filter has_dt
      [dt_row ''A'' (Some (ts 2021 3 2)) [], dt_row ''B'' None [], dt_row ''C'' (Some (ts 2021 3 1)) []]))
   \<and> map r_id (apply_sort ''date''
      [dt_row ''A'' (Some (ts 2021 3 2)) [], dt_row ''B'' None [], dt_row ''C'' (Some (ts 2021 3 1)) []])
       = [''C'', ''A'', ''B'']
   \<and> map r_id (apply_sort ''-date''
      [dt_row ''A'' (Some (ts 2021 3 2)) [], dt_row ''B'' None [], dt_row ''C'' (Some (ts 2021 3 1)) []])
       = [''A'', ''C'', ''B'']"
  using sort_reversal [of "[dt_row ''A'' (Some (ts 2021 3 2)) [], dt_row ''B'' None [], dt_row ''C'' (Some (ts 2021 3 1)) []]"]
  by (simp add: row_eval)

text \<open>
  Whenever \<open>incidents\<close> answers and its text pattern is literal, the total is the number
  of records that satisfy the conjunction of the active filters; every other limit and
  offset gives an answer with the same total; an offset at or beyond the total gives an
  empty page; and the page is the slice of the sorted filtered records that limit and
  offset select.
\<close>

lemma incidents_total_answered:
  assumes "incidents_df P f p = Inr res" and lit: "literal_pattern P (p_q p)"
  shows "res_total res = length (filter (spec_satisfies P p) (f_rows f))
   \<and> (\<forall>l off. \<exists>res'. incidents_df P f (p\<lparr>p_limit := l, p_offset := off\<rparr>) = Inr res'
          \<and> res_total res' = res_total res)
   \<and> (0 \<le> p_offset p \<and> int (res_total res) \<le> p_offset p \<longrightarrow> res_items res = [])
   \<and> (0 \<le> p_offset p \<and> 0 \<le> p_limit p \<longrightarrow>
        res_items res = map project (take (nat (p_limit p)) (drop (nat (p_offset p))
          (apply_sort (p_sort p) (filter (spec_satisfies P p) (f_rows f))))))"
proof -
  from assms obtain filt where F: "incidents_filter P p = Inr filt"
    by (cases "incidents_filter P p") (simp_all add: incidents_df_def)
  have E: "filt = spec_satisfies P p"
    using incidents_filter_sat [OF F lit] by (simp add: fun_eq_iff)
  have M: "mask_touched (p\<lparr>p_limit := l, p_offset := off\<rparr>) = mask_touched p" for l off
    by (simp add: mask_touched_def)
  define srt where "srt = apply_sort (p_sort p) (filter (spec_satisfies P p) (f_rows f))"
  show ?thesis
  proof (cases "f_rows f = [] \<and> \<not> mask_touched p")
    case True
    then have S: "\<not> (p_sort p = ''date'' \<or> p_sort p = ''-date'')"
      using assms(1) F by (auto simp: incidents_df_def)
    then have R: "res = \<lparr>res_total = 0, res_limit = p_limit p, res_offset = p_offset p,
                 res_items = []\<rparr>"
      using assms(1) F True by (auto simp: incidents_df_def)
    have I: "\<exists>res'. incidents_df P f (p\<lparr>p_limit := l, p_offset := off\<rparr>) = Inr res'
          \<and> res_total res' = res_total res" for l off
      using True S unfolding incidents_df_def incidents_filter_page F R M by simp
    show ?thesis using True I unfolding R by (simp add: length_apply_sort)
  next
    case False
    have R: "res = \<lparr>res_total = length srt, res_limit = p_limit p, res_offset = p_offset p,
                 res_items = map project (slice srt (p_offset p) (p_offset p + p_limit p))\<rparr>"
      using assms(1) F False unfolding incidents_df_def E srt_def by (auto simp: Let_def)
    have T: "res_total res = length (filter (spec_satisfies P p) (f_rows f))"
      unfolding R srt_def by (simp add: length_apply_sort)
    have I: "\<exists>res'. incidents_df P f (p\<lparr>p_limit := l, p_offset := off\<rparr>) = Inr res'
          \<and> res_total res' = res_total res" for l off
      using False unfolding incidents_df_def incidents_filter_page F R srt_def E M
      by (simp add: Let_def length_apply_sort)
    have O: "res_items res = []" if "0 \<le> p_offset p" "int (res_total res) \<le> p_offset p"
      using that unfolding R by (simp add: slice_beyond)
    have G: "res_items res = map project (take (nat (p_limit p)) (drop (nat (p_offset p)) srt))"
      if "0 \<le> p_offset p" "0 \<le> p_limit p"
      using that unfolding R by (simp add: slice_take_drop)
    show ?thesis using T I O G unfolding srt_def by blast
  qed
qed

lemma build_frame_empty: "df_rows df = [] \<Longrightarrow> f_rows (build_frame P df sch) = []"
  by (simp add: build_frame_def Let_def)

text \<open>
  C6 states that for every combination of active filters \<open>incidents\<close> reports the number of
  records that satisfy them all. On the store of a file that has its header line only,
  with no filter and the default sort, no record satisfies the filters, and the request is
  not answered with a total of 0: it ends in KeyError. With a category filter the same
  store is answered with the total 0.
\<close>

theorem incidents_empty_store:
  "fst (incidents demo header_file init_state default_params) = Inl (KeyError ''_dt'')
   \<and> f_rows (load demo header_only) = []
   \<and> length (filter (spec_satisfies demo default_params) (f_rows (load demo header_only))) = 0
   \<and> incidents_df demo (load demo header_only) (default_params\<lparr>p_category := Some ''theft''\<rparr>)
       = Inr \<lparr>res_total = 0, res_limit = 100, res_offset = 0, res_items = []\<rparr>"
proof -
  have E: "f_rows (load demo header_only) = []"
    by (simp add: load_def build_frame_empty header_only_def)
  have G: "get_df demo header_file init_state
      = (Inr (load demo header_only),
         \<lparr>g_df = Some (load demo header_only),
          g_schema = auto_map_columns (df_columns header_only)\<rparr>)"
    by (simp add: get_df_def load_df_def load_def header_file_def init_state_def Let_def)
  have F: "incidents_filter demo default_params = Inr (\<lambda>r. True)"
    by (simp add: incidents_filter_def q_filter_def date_filter_def eq_filter_def
        bound_filter_def active_def default_params_def)
  have M: "\<not> mask_touched default_params"
    by (simp add: mask_touched_def active_def default_params_def)
  have I: "incidents_df demo (load demo header_only) default_params = Inl (KeyError ''_dt'')"
    using E F M by (simp add: incidents_df_def) (simp add: default_params_def)
  have V: "\<not> (p_limit default_params < 1 \<or> 1000 < p_limit default_params
      \<or> p_offset default_params < 0)"
    by (simp add: default_params_def)
  have "incidents demo header_file init_state default_params
      = (Inl (KeyError ''_dt''),
         \<lparr>g_df = Some (load demo header_only),
          g_schema = auto_map_columns (df_columns header_only)\<rparr>)"
    using V by (simp add: incidents_def with_df_def G I)
  moreover have "incidents_df demo (load demo header_only)
      (default_params\<lparr>p_category := Some ''theft''\<rparr>)
       = Inr \<lparr>res_total = 0, res_limit = 100, res_offset = 0, res_items = []\<rparr>"
    by (simp add: E incidents_df_def incidents_filter_def q_filter_def date_filter_def
        eq_filter_def bound_filter_def mask_touched_def active_def default_params_def
        apply_sort_def sort_values_def slice_def Let_def)
  ultimately show ?thesis using E by simp
qed

section \<open>Properties of the record store\<close>




lemma candidates_nonempty: "[] \<notin> set (candidates r)"
  by (cases r) simp_all

lemma auto_map_in_columns:
  assumes "auto_map_columns cols r = Some c"
  shows "c \<in> set cols \<and> c \<noteq> []"
proof -
  have "c \<in> set cols"
    using assms by (auto simp: auto_map_columns_def dest: pick_member)
  moreover have "find (matches cols) (candidates r) = Some (lower c)"
    using auto_map_find [of cols r] assms by simp
  then have "lower c \<in> set (candidates r)"
    by (auto simp: find_Some_iff)
  then have "lower c \<noteq> []" using candidates_nonempty [of r] by auto
  then have "c \<noteq> []" by (auto simp: lower_def)
  ultimately show ?thesis by simp
qed





lemmas load_eval =
  build_frame_def load_dt_def load_text_def load_num_def load_id_def astype_str_def
  add_column_def column_def row_of_def demo_def demo3_def demo_parse_def demo_format_def
  demo_to_datetime_series_def Let_def



section \<open>Properties of the statistics\<close>
















section \<open>Properties of the lazy load\<close>

lemma with_df_absent:
  assumes "csv_file E = None" and "g_df st = None"
  shows "with_df P E st body = (Inl (SourceNotFound (csv_path E)), st)"
  using assms by (simp add: with_df_def get_df_def load_df_def SourceNotFound_def)

text \<open>Once a frame is memoised, the file is not looked at again.\<close>

lemma memoised_ignores_file: "g_df st = Some f \<Longrightarrow> get_df P E st = (Inr f, st)"
  by (simp add: get_df_def)

text \<open>
  C9. When the file is absent and no frame is memoised, \<open>_load_df\<close> raises
  FileNotFoundError and \<open>get_df\<close> passes that exception on as it is; every endpoint that
  reads the store answers status 404 with the message of the exception; the state is
  unchanged, so no frame is memoised. Once the file exists, a request on that state builds
  the frame and memoises it together with the schema.
\<close>

theorem source_absent:
  assumes "csv_file E = None" and "g_df st = None"
  shows "load_df P E st = Inl (FileNotFoundError (''CSV not found at '' @ csv_path E))
   \<and> get_df P E st = (Inl (FileNotFoundError (''CSV not found at '' @ csv_path E)), st)
   \<and> columns P E st = (Inl (SourceNotFound (csv_path E)), st)
   \<and> (1 \<le> p_limit p \<and> p_limit p \<le> 1000 \<and> 0 \<le> p_offset p \<longrightarrow>
        incidents P E st p = (Inl (SourceNotFound (csv_path E)), st))
   \<and> stats P E st by sd ed = (Inl (SourceNotFound (csv_path E)), st)
   \<and> geojson P E st = (Inl (SourceNotFound (csv_path E)), st)
   \<and> (5 \<le> bins \<and> bins \<le> 400 \<longrightarrow>
        heatmap P E st bins = (Inl (SourceNotFound (csv_path E)), st))
   \<and> (\<forall>df. \<exists>st'. get_df P (E\<lparr>csv_file := Some df\<rparr>) st = (Inr (load P df), st')
          \<and> g_df st' = Some (load P df)
          \<and> g_schema st' = auto_map_columns (df_columns df))"
proof -
  have L: "load_df P E st = Inl (FileNotFoundError (''CSV not found at '' @ csv_path E))"
    using assms by (simp add: load_df_def)
  have G: "get_df P E st = (Inl (FileNotFoundError (''CSV not found at '' @ csv_path E)), st)"
    using assms by (simp add: get_df_def load_df_def)
  have C: "columns P E st = (Inl (SourceNotFound (csv_path E)), st)"
    by (simp add: columns_def with_df_absent [OF assms])
  have I: "incidents P E st p = (Inl (SourceNotFound (csv_path E)), st)"
    if "1 \<le> p_limit p \<and> p_limit p \<le> 1000 \<and> 0 \<le> p_offset p"
    using that by (simp add: incidents_def with_df_absent [OF assms])
  have S: "stats P E st by sd ed = (Inl (SourceNotFound (csv_path E)), st)"
    by (simp add: stats_def with_df_absent [OF assms])
  have J: "geojson P E st = (Inl (SourceNotFound (csv_path E)), st)"
    by (simp add: geojson_def with_df_absent [OF assms])
  have H: "heatmap P E st bins = (Inl (SourceNotFound (csv_path E)), st)"
    if "5 \<le> bins \<and> bins \<le> 400"
    using that by (simp add: heatmap_def with_df_absent [OF assms])
  have R: "\<exists>st'. get_df P (E\<lparr>csv_file := Some df\<rparr>) st = (Inr (load P df), st')
          \<and> g_df st' = Some (load P df)
          \<and> g_schema st' = auto_map_columns (df_columns df)" for df
    using assms(2) by (simp add: get_df_def load_df_def load_def Let_def)
  show ?thesis using L G C I S J H R by blast
qed

theorem source_absent_witness:
  "csv_file no_file = None \<and> g_df init_state = None
   \<and> get_df demo no_file init_state
       = (Inl (FileNotFoundError ''CSV not found at data/crime.csv''), init_state)
   \<and> incidents demo no_file init_state default_params
       = (Inl (HTTPException 404 ''CSV not found at data/crime.csv''), init_state)
   \<and> heatmap demo no_file init_state 50
       = (Inl (HTTPException 404 ''CSV not found at data/crime.csv''), init_state)
   \<and> fst (get_df demo (no_file\<lparr>csv_file := Some crime_df\<rparr>) init_state) = Inr (load demo crime_df)"
proof -
  have A: "csv_file no_file = None" by (simp add: no_file_def)
  have B: "g_df init_state = None" by (simp add: init_state_def)
  note T = source_absent [OF A B, of demo default_params "[]" None None 50]
  have V: "1 \<le> p_limit default_params \<and> p_limit default_params \<le> 1000
      \<and> 0 \<le> p_offset default_params"
    by (simp add: default_params_def)
  have P: "csv_path no_file = ''data/crime.csv''" by (simp add: no_file_def)
  have G: "get_df demo no_file init_state
       = (Inl (FileNotFoundError ''CSV not found at data/crime.csv''), init_state)"
    using T P by simp
  have I: "incidents demo no_file init_state default_params
       = (Inl (HTTPException 404 ''CSV not found at data/crime.csv''), init_state)"
    using T V P by (simp add: SourceNotFound_def)
  have H: "heatmap demo no_file init_state 50
       = (Inl (HTTPException 404 ''CSV not found at data/crime.csv''), init_state)"
    using T P by (simp add: SourceNotFound_def)
  from T obtain st' where
    "get_df demo (no_file\<lparr>csv_file := Some crime_df\<rparr>) init_state = (Inr (load demo crime_df), st')"
    by blast
  then have R: "fst (get_df demo (no_file\<lparr>csv_file := Some crime_df\<rparr>) init_state)
      = Inr (load demo crime_df)"
    by simp
  show ?thesis using A B G I H R by simp
qed

section \<open>Properties of the date column\<close>

lemma try_fmts_find:
  "try_fmts P s fs
     = (case find (\<lambda>f. strptime P s f \<noteq> None) fs of
          Some f \<Rightarrow> strptime P s f
        | None \<Rightarrow> None)"
  by (induction fs) (auto split: option.splits)

lemma fmts_spec: "fmts = spec_patterns"
  by (simp add: fmts_def spec_patterns_def)

lemma maybe_parse_spec: "maybe_parse_date P raw = spec_parse P raw"
proof (cases "find (\<lambda>f. strptime P (py_str raw) f \<noteq> None) spec_patterns")
  case None
  then show ?thesis
    by (simp add: maybe_parse_date_def spec_parse_def try_fmts_find fmts_spec
        split: option.splits)
next
  case (Some f)
  then have "strptime P (py_str raw) f \<noteq> None"
    by (auto simp: find_Some_iff)
  with Some show ?thesis
    by (auto simp: maybe_parse_date_def spec_parse_def try_fmts_find fmts_spec
        split: option.splits)
qed

lemma map_r_dt_build:
  assumes "length (load_dt P df sch) = length (df_rows df)"
  shows "map r_dt (f_rows (build_frame P df sch)) = load_dt P df sch"
proof -
  have "map r_dt (f_rows (build_frame P df sch))
      = map (\<lambda>i. load_dt P df sch ! i) [0 ..< length (df_rows df)]"
    by (simp add: build_frame_def Let_def o_def)
  also have "\<dots> = load_dt P df sch"
    using assms map_nth [of "load_dt P df sch"] by simp
  finally show ?thesis .
qed

text \<open>
  C4, amended. The per-row function \<open>_maybe_parse_date\<close> is the reference parse of section
  4.2 and returns a value on every input. The stored timestamps are all absent when the date
  role is unmapped or every cell of the date column is missing. Otherwise they are what the
  bulk parse of the column returns, whenever it returns, with no per-row fallback for the
  rows it coerces to absent; only when the bulk parse itself raises is every row given its
  reference parse.
\<close>

theorem date_column:
  "maybe_parse_date P raw = spec_parse P raw
   \<and> (auto_map_columns (df_columns df) Date = None \<longrightarrow>
        map r_dt (f_rows (load P df)) = replicate (length (df_rows df)) None)
   \<and> (\<forall>c. auto_map_columns (df_columns df) Date = Some c \<and> (\<forall>r \<in> set (df_rows df). r c = NaN) \<longrightarrow>
        map r_dt (f_rows (load P df)) = replicate (length (df_rows df)) None)
   \<and> (\<forall>c tss. auto_map_columns (df_columns df) Date = Some c
          \<and> (\<exists>r \<in> set (df_rows df). r c \<noteq> NaN)
          \<and> to_datetime_series P (column df c) = Some tss
          \<and> length tss = length (df_rows df) \<longrightarrow>
        map r_dt (f_rows (load P df)) = tss)
   \<and> (\<forall>c. auto_map_columns (df_columns df) Date = Some c
          \<and> (\<exists>r \<in> set (df_rows df). r c \<noteq> NaN)
          \<and> to_datetime_series P (column df c) = None \<longrightarrow>
        map r_dt (f_rows (load P df)) = map (spec_parse P) (column df c))"
proof -
  define sch where "sch = auto_map_columns (df_columns df)"
  have A: "map r_dt (f_rows (load P df)) = replicate (length (df_rows df)) None"
    if "sch Date = None"
  proof -
    have D: "load_dt P df sch = replicate (length (df_rows df)) None"
      using that by (simp add: load_dt_def)
    show ?thesis
      unfolding load_def sch_def [symmetric] using map_r_dt_build [of P df sch] D by simp
  qed
  have B: "map r_dt (f_rows (load P df)) = replicate (length (df_rows df)) None"
    if "sch Date = Some c" "\<forall>r \<in> set (df_rows df). r c = NaN" for c
  proof -
    have "\<not> list_ex (\<lambda>v. v \<noteq> NaN) (column df c)"
      using that(2) by (simp add: list_ex_iff column_def)
    then have D: "load_dt P df sch = replicate (length (df_rows df)) None"
      using that(1) by (simp add: load_dt_def)
    show ?thesis
      unfolding load_def sch_def [symmetric] using map_r_dt_build [of P df sch] D by simp
  qed
  have N: "c \<noteq> [] \<and> list_ex (\<lambda>v. v \<noteq> NaN) (column df c)"
    if "sch Date = Some c" "\<exists>r \<in> set (df_rows df). r c \<noteq> NaN" for c
    using that auto_map_in_columns [of "df_columns df" Date c]
    by (auto simp: sch_def list_ex_iff column_def)
  have C: "map r_dt (f_rows (load P df)) = tss"
    if "sch Date = Some c" "\<exists>r \<in> set (df_rows df). r c \<noteq> NaN"
      "to_datetime_series P (column df c) = Some tss" "length tss = length (df_rows df)" for c tss
  proof -
    have D: "load_dt P df sch = tss"
      using that(1,3) N [OF that(1,2)] by (simp add: load_dt_def)
    show ?thesis
      unfolding load_def sch_def [symmetric] using map_r_dt_build [of P df sch] D that(4) by simp
  qed
  have E: "map r_dt (f_rows (load P df)) = map (spec_parse P) (column df c)"
    if "sch Date = Some c" "\<exists>r \<in> set (df_rows df). r c \<noteq> NaN"
      "to_datetime_series P (column df c) = None" for c
  proof -
    have "load_dt P df sch = map (maybe_parse_date P) (column df c)"
      using that(1,3) N [OF that(1,2)] by (simp add: load_dt_def)
    then have D: "load_dt P df sch = map (spec_parse P) (column df c)"
      by (simp add: maybe_parse_spec)
    have "length (load_dt P df sch) = length (df_rows df)"
      unfolding D by (simp add: column_def)
    then show ?thesis
      unfolding load_def sch_def [symmetric] using map_r_dt_build [of P df sch] D by simp
  qed
  show ?thesis
    using maybe_parse_spec [of P raw] A B C E unfolding sch_def by blast
qed

lemma date_schema:
  "auto_map_columns (df_columns date_df) = (\<lambda>r. if r = Date then Some ''Date'' else None)"
proof
  fix r
  show "auto_map_columns (df_columns date_df) r = (if r = Date then Some ''Date'' else None)"
    by (cases r) (simp_all add: date_df_def auto_map_columns_def columns_lower_def lower_def char_lower_def)
qed

lemmas parse_eval =
  spec_parse_def spec_patterns_def demo_def demo_raising_def demo_strptime_def demo_to_datetime_def
  demo_to_datetime_series_def demo_format_def demo_parse_def column_def date_df_def row_of_def
  ts_def

lemma date_frame_dt:
  "map r_dt (f_rows (load demo date_df)) = [Some (ts 2021 1 2), None]"
  unfolding load_def date_schema
  by (simp add: load_eval date_df_def upt_rec [of 0 2] upt_rec [of 1 2])

lemma date_spec_parse:
  "map (spec_parse demo) (column date_df ''Date'') = [Some (ts 2021 2 1), Some (ts 1500 1 1)]"
  by (simp add: parse_eval)

text \<open>
  C4, as the claim states it, fails. The bulk parse reads \<open>01-02-2021\<close> month first and
  coerces \<open>1500-01-01\<close> to absent; the store keeps both results, where the reference parse
  gives the first of February 2021 and the first of January 1500.
\<close>

theorem date_column_counterexample:
  "map r_dt (f_rows (load demo date_df)) = [Some (ts 2021 1 2), None]
   \<and> map (spec_parse demo) (column date_df ''Date'') = [Some (ts 2021 2 1), Some (ts 1500 1 1)]
   \<and> map r_dt (f_rows (load demo date_df)) \<noteq> map (spec_parse demo) (column date_df ''Date'')"
  unfolding date_frame_dt date_spec_parse by (simp add: ts_def)

theorem date_column_witness:
  "auto_map_columns (df_columns date_df) Date = Some ''Date''
   \<and> (\<exists>r \<in> set (df_rows date_df). r ''Date'' \<noteq> NaN)
   \<and> to_datetime_series demo (column date_df ''Date'') = Some [Some (ts 2021 1 2), None]
   \<and> map r_dt (f_rows (load demo date_df)) = [Some (ts 2021 1 2), None]
   \<and> to_datetime_series demo_raising (column date_df ''Date'') = None
   \<and> map r_dt (f_rows (load demo_raising date_df)) = [Some (ts 2021 2 1), Some (ts 1500 1 1)]"
proof -
  have S: "auto_map_columns (df_columns date_df) Date = Some ''Date''"
    by (simp add: date_schema)
  have N: "\<exists>r \<in> set (df_rows date_df). r ''Date'' \<noteq> NaN"
    by (simp add: date_df_def row_of_def)
  have B: "to_datetime_series demo (column date_df ''Date'') = Some [Some (ts 2021 1 2), None]"
    by (simp add: parse_eval)
  have L: "length [Some (ts 2021 1 2), None] = length (df_rows date_df)"
    by (simp add: date_df_def)
  have R: "to_datetime_series demo_raising (column date_df ''Date'') = None"
    by (simp add: demo_raising_def)
  have P: "map (spec_parse demo_raising) (column date_df ''Date'')
      = [Some (ts 2021 2 1), Some (ts 1500 1 1)]"
    by (simp add: parse_eval)
  from date_column [of demo NaN date_df] S N B L
  have "map r_dt (f_rows (load demo date_df)) = [Some (ts 2021 1 2), None]"
    by blast
  moreover from date_column [of demo_raising NaN date_df] S N R
  have "map r_dt (f_rows (load demo_raising date_df))
      = map (spec_parse demo_raising) (column date_df ''Date'')"
    by blast
  ultimately show ?thesis using S N B R P by simp
qed

section \<open>Properties of the text columns\<close>











end
